theory Spec2Isabelle
  imports
    Main
    "HOL-Library.AList"
    "HOL-Library.Char_ord"
    "HOL-Library.List_Lexorder"
    "HOL-Library.Multiset"
    "HOL-Library.Sublist"
begin

section \<open>The schema compiler of weave\<close>

text \<open>
  The development embeds the Go package \<^verbatim>\<open>weave\<close> (the schema generator:
  \<^verbatim>\<open>GenerateWeaviateSchema\<close> and everything it calls). Go strings are byte
  sequences, so they are \<^typ>\<open>string\<close> here, one \<^typ>\<open>char\<close> per byte. Errors
  are the text that \<^verbatim>\<open>fmt.Errorf\<close> builds, carried in the left summand of a
  sum type; a Go result \<^verbatim>\<open>(v, nil)\<close> is \<open>Inr v\<close> and \<^verbatim>\<open>(nil, err)\<close> is
  \<open>Inl err\<close>.
\<close>

subsection \<open>The Go standard library, as far as the package calls it\<close>

text \<open>
  The package calls into the Go standard library. Each call is modelled here
  on the inputs where the library's result is a small, fixed computation
  (ASCII and Latin-1 text, literals without escape sequences). Outside
  those inputs the library consults large tables or parsers that are not part
  of this repository; there the model reads the result from a parameter, the
  record \<open>golib\<close>, so that every theorem below holds for whatever the library
  returns there.
\<close>

record golib =
  upperTable :: "nat \<Rightarrow> bool"
    \<comment> \<open>\<^verbatim>\<open>unicode.Upper\<close> on code points above U+00FF\<close>
  unquoteEscaped :: "string \<Rightarrow> string option"
    \<comment> \<open>\<^verbatim>\<open>strconv.Unquote\<close> on a literal outside the escape-free ASCII forms\<close>
  lowerUnicode :: "string \<Rightarrow> string"
    \<comment> \<open>\<^verbatim>\<open>strings.ToLower\<close> on a string of two or more bytes, one of them above 0x7F\<close>
  trimUnicode :: "string \<Rightarrow> string"
    \<comment> \<open>\<^verbatim>\<open>strings.TrimFunc(s, unicode.IsSpace)\<close> on a string that starts with a non-ASCII byte\<close>
  trimRightUnicode :: "string \<Rightarrow> string"
    \<comment> \<open>\<^verbatim>\<open>strings.TrimRightFunc(s, unicode.IsSpace)\<close> on a string that ends with a non-ASCII byte\<close>
  parsesAsFloat :: "string \<Rightarrow> bool"
    \<comment> \<open>\<^verbatim>\<open>strconv.ParseFloat(s, 64)\<close> returns no error\<close>
  parsesAsJSONObject :: "string \<Rightarrow> bool"
    \<comment> \<open>\<^verbatim>\<open>json.Unmarshal\<close> of the text into a \<^verbatim>\<open>map[string]interface{}\<close> returns no error\<close>
  joinPrefix :: "string \<Rightarrow> string"
    \<comment> \<open>the cleaned directory prefix \<open>p\<close> with which \<^verbatim>\<open>filepath.Glob\<close> reports a
        file \<open>n\<close> of the directory as \<open>p @ n\<close>\<close>

definition byte :: "char \<Rightarrow> nat" where
  "byte c = of_char c"

text \<open>\<^verbatim>\<open>utf8.DecodeRuneInString\<close>, the rune only. \<open>RuneError\<close> is U+FFFD.\<close>

definition RuneError :: nat where
  "RuneError = 0xFFFD"

definition cont :: "char \<Rightarrow> bool" where
  "cont c = (0x80 \<le> byte c \<and> byte c \<le> 0xBF)"

definition accept :: "char \<Rightarrow> char \<Rightarrow> bool" where
  "accept s0 s1 =
    (let b = byte s0; lo = (if b = 0xE0 then 0xA0 else if b = 0xF0 then 0x90 else 0x80);
         hi = (if b = 0xED then 0x9F else if b = 0xF4 then 0x8F else 0xBF)
     in lo \<le> byte s1 \<and> byte s1 \<le> hi)"

fun DecodeRuneInString :: "string \<Rightarrow> nat" where
  "DecodeRuneInString [] = RuneError"
| "DecodeRuneInString (s0 # rest) =
    (let b = byte s0 in
     if b < 0x80 then b
     else if b < 0xC2 \<or> 0xF4 < b then RuneError
     else if b < 0xE0 then
       (case rest of
          s1 # _ \<Rightarrow> if accept s0 s1 then (b - 0xC0) * 64 + (byte s1 - 0x80) else RuneError
        | _ \<Rightarrow> RuneError)
     else if b < 0xF0 then
       (case rest of
          s1 # s2 # _ \<Rightarrow>
            if accept s0 s1 \<and> cont s2
            then (b - 0xE0) * 4096 + (byte s1 - 0x80) * 64 + (byte s2 - 0x80)
            else RuneError
        | _ \<Rightarrow> RuneError)
     else
       (case rest of
          s1 # s2 # s3 # _ \<Rightarrow>
            if accept s0 s1 \<and> cont s2 \<and> cont s3
            then (b - 0xF0) * 262144 + (byte s1 - 0x80) * 4096 + (byte s2 - 0x80) * 64
                   + (byte s3 - 0x80)
            else RuneError
        | _ \<Rightarrow> RuneError))"

text \<open>
  \<^verbatim>\<open>unicode.IsUpper\<close>: up to U+00FF the Latin-1 property table (the letters
  A to Z, U+00C0 to U+00D6 and U+00D8 to U+00DE are upper case), above it the
  range table \<^verbatim>\<open>unicode.Upper\<close>, which does not hold U+FFFD (the rune that the
  decoder returns for the empty string and for invalid input).
\<close>

definition IsUpper :: "golib \<Rightarrow> nat \<Rightarrow> bool" where
  "IsUpper L r =
    (if r \<le> 0xFF
     then (0x41 \<le> r \<and> r \<le> 0x5A) \<or> (0xC0 \<le> r \<and> r \<le> 0xD6) \<or> (0xD8 \<le> r \<and> r \<le> 0xDE)
     else r \<noteq> RuneError \<and> upperTable L r)"

text \<open>\<^verbatim>\<open>ast.IsExported\<close>: the first rune of the name is an upper-case letter.\<close>

definition IsExported :: "golib \<Rightarrow> string \<Rightarrow> bool" where
  "IsExported L name = IsUpper L (DecodeRuneInString name)"

text \<open>
  \<^verbatim>\<open>strings.ToLower\<close>. On ASCII text it maps the letters A to Z to a to z.
  A string of one byte above 0x7F is not valid UTF-8: \<^verbatim>\<open>strings.Map\<close> reads
  it as U+FFFD and writes that rune back, the three bytes EF BF BD.
\<close>

definition lowerASCII :: "char \<Rightarrow> char" where
  "lowerASCII c = (if 0x41 \<le> byte c \<and> byte c \<le> 0x5A then char_of (byte c + 32) else c)"

definition ToLower :: "golib \<Rightarrow> string \<Rightarrow> string" where
  "ToLower L s =
    (if list_all (\<lambda>c. byte c < 0x80) s then map lowerASCII s
     else if length s = 1 then [CHR 0xEF, CHR 0xBF, CHR 0xBD]
     else lowerUnicode L s)"

text \<open>
  \<^verbatim>\<open>strings.Contains\<close>, \<^verbatim>\<open>strings.Split\<close> and \<^verbatim>\<open>strings.SplitN\<close> with
  \<open>n = 2\<close>, for a separator that is not empty (as it is at every call).
\<close>

fun Contains :: "string \<Rightarrow> string \<Rightarrow> bool" where
  "Contains [] substr = (substr = [])"
| "Contains (c # cs) substr = (prefix substr (c # cs) \<or> Contains cs substr)"

fun cut :: "string \<Rightarrow> string \<Rightarrow> (string \<times> string) option" where
  "cut [] sep = (if sep = [] then Some ([], []) else None)"
| "cut (c # cs) sep =
    (if prefix sep (c # cs) then Some ([], drop (length sep) (c # cs))
     else (case cut cs sep of None \<Rightarrow> None | Some (a, b) \<Rightarrow> Some (c # a, b)))"

definition SplitN2 :: "string \<Rightarrow> string \<Rightarrow> string list" where
  "SplitN2 s sep = (case cut s sep of None \<Rightarrow> [s] | Some (a, b) \<Rightarrow> [a, b])"

function Split :: "string \<Rightarrow> string \<Rightarrow> string list" where
  "Split s sep =
    (case cut s sep of
       None \<Rightarrow> [s]
     | Some (a, b) \<Rightarrow> if sep = [] then [s] else a # Split b sep)"
  by pat_completeness auto

lemma cut_shorter: "cut s sep = Some (a, b) \<Longrightarrow> sep \<noteq> [] \<Longrightarrow> length b < length s"
proof (induction s arbitrary: a)
  case Nil
  then show ?case by simp
next
  case (Cons c cs)
  show ?case
  proof (cases "prefix sep (c # cs)")
    case True
    with Cons.prems show ?thesis by auto
  next
    case False
    with Cons.prems obtain a' where "cut cs sep = Some (a', b)"
      by (auto split: option.splits)
    with Cons.IH [OF this Cons.prems(2)] show ?thesis by simp
  qed
qed

termination Split
  by (relation "measure (\<lambda>(s, sep). length s)") (auto dest: cut_shorter)

definition HasPrefix :: "string \<Rightarrow> string \<Rightarrow> bool" where
  "HasPrefix s p = prefix p s"

definition HasSuffix :: "string \<Rightarrow> string \<Rightarrow> bool" where
  "HasSuffix s p = suffix p s"

text \<open>
  \<^verbatim>\<open>strings.TrimSpace\<close>: the ASCII fast path from both ends; at the first
  byte above 0x7F it hands over to the Unicode-aware functions.
\<close>

definition asciiSpace :: "char \<Rightarrow> bool" where
  "asciiSpace c = (byte c \<in> set [9, 10, 11, 12, 13, 32])"

fun trimEnd :: "golib \<Rightarrow> string \<Rightarrow> string" where
  "trimEnd L [] = []"
| "trimEnd L (c # r) =
    (if 0x80 \<le> byte c then trimRightUnicode L (rev (c # r))
     else if asciiSpace c then trimEnd L r
     else rev (c # r))"

fun TrimSpace :: "golib \<Rightarrow> string \<Rightarrow> string" where
  "TrimSpace L [] = []"
| "TrimSpace L (c # cs) =
    (if 0x80 \<le> byte c then trimUnicode L (c # cs)
     else if asciiSpace c then TrimSpace L cs
     else trimEnd L (rev (c # cs)))"

text \<open>\<^verbatim>\<open>strconv.ParseBool\<close>.\<close>

definition ParseBool :: "string \<Rightarrow> bool option" where
  "ParseBool s =
    (if s \<in> set [''1'', ''t'', ''T'', ''TRUE'', ''true'', ''True''] then Some True
     else if s \<in> set [''0'', ''f'', ''F'', ''FALSE'', ''false'', ''False''] then Some False
     else None)"

text \<open>
  \<^verbatim>\<open>strconv.Unquote\<close>. The literal opens with its quote character and must
  close with the first later occurrence of it, with nothing behind. A raw
  literal (back quotes) yields its body without carriage returns. An
  interpreted literal (double quotes) whose body is ASCII without backslash
  and newline yields its body. Every other literal that has a closing quote
  goes through the escape decoder.
\<close>

definition Unquote :: "golib \<Rightarrow> string \<Rightarrow> string option" where
  "Unquote L s =
    (case s of
       [] \<Rightarrow> None
     | q # rest \<Rightarrow>
        (case cut rest [q] of
           None \<Rightarrow> None
         | Some (body, rem) \<Rightarrow>
             if q = CHR 0x60 then
               (if rem = [] then Some (filter (\<lambda>c. c \<noteq> CHR 0x0D) body) else None)
             else if q = CHR 0x22 then
               (if list_all (\<lambda>c. byte c < 0x80 \<and> c \<noteq> CHR 0x5C \<and> c \<noteq> CHR 0x0A) body
                then (if rem = [] then Some body else None)
                else unquoteEscaped L s)
             else if q = CHR 0x27 then unquoteEscaped L s
             else None))"

text \<open>
  \<^verbatim>\<open>reflect.StructTag.Lookup\<close> and \<^verbatim>\<open>Get\<close>: the tag is a sequence of
  \<^verbatim>\<open>name:"value"\<close> pairs separated by spaces; scanning stops without a result
  at the first pair that is not of that form.
\<close>

definition nameChar :: "char \<Rightarrow> bool" where
  "nameChar c = (0x20 < byte c \<and> c \<noteq> CHR 0x3A \<and> c \<noteq> CHR 0x22 \<and> byte c \<noteq> 0x7F)"

fun scanQuoted :: "string \<Rightarrow> (string \<times> string) option" where
  "scanQuoted [] = None"
| "scanQuoted (c # cs) =
    (if c = CHR 0x22 then Some ([], cs)
     else if c = CHR 0x5C then
       (case cs of
          [] \<Rightarrow> None
        | d # ds \<Rightarrow> (case scanQuoted ds of None \<Rightarrow> None | Some (b, r) \<Rightarrow> Some (c # d # b, r)))
     else (case scanQuoted cs of None \<Rightarrow> None | Some (b, r) \<Rightarrow> Some (c # b, r)))"

function Lookup :: "golib \<Rightarrow> string \<Rightarrow> string \<Rightarrow> string option" where
  "Lookup L tag key =
    (let tag1 = dropWhile (\<lambda>c. c = CHR 0x20) tag;
         name = takeWhile nameChar tag1
     in if tag1 = [] \<or> name = [] then None
        else (case dropWhile nameChar tag1 of
                c1 # c2 # rest \<Rightarrow>
                  if c1 = CHR 0x3A \<and> c2 = CHR 0x22 then
                    (case scanQuoted rest of
                       None \<Rightarrow> None
                     | Some (body, tag3) \<Rightarrow>
                         if key = name then Unquote L (CHR 0x22 # body @ [CHR 0x22])
                         else Lookup L tag3 key)
                  else None
              | _ \<Rightarrow> None))"
  by pat_completeness auto

lemma scanQuoted_shorter: "scanQuoted s = Some (b, r) \<Longrightarrow> length r < length s"
proof (induction s arbitrary: b rule: scanQuoted.induct)
  case 1
  then show ?case by simp
next
  case (2 c cs)
  then show ?case
    by (fastforce split: if_splits list.splits option.splits)
qed

lemma dropWhile_shorter: "length (dropWhile P xs) \<le> length xs"
  by (induction xs) auto

lemma Lookup_step:
  assumes "scanQuoted rest = Some (body, tag3)"
    and "dropWhile nameChar (dropWhile (\<lambda>c. c = CHR 0x20) tag) = c1 # c2 # rest"
  shows "length tag3 < length tag"
proof -
  have "length tag3 < length rest"
    using assms(1) by (rule scanQuoted_shorter)
  moreover have "length (c1 # c2 # rest) \<le> length (dropWhile (\<lambda>c. c = CHR 0x20) tag)"
    unfolding assms(2) [symmetric] by (rule dropWhile_shorter)
  moreover have "length (dropWhile (\<lambda>c. c = CHR 0x20) tag) \<le> length tag"
    by (rule dropWhile_shorter)
  ultimately show ?thesis by simp
qed

termination Lookup
  by (relation "measure (\<lambda>(L, tag, key). length tag)") (auto intro: Lookup_step)

definition Get :: "golib \<Rightarrow> string \<Rightarrow> string \<Rightarrow> string" where
  "Get L tag key = (case Lookup L tag key of None \<Rightarrow> [] | Some v \<Rightarrow> v)"

text \<open>\<^verbatim>\<open>filepath\<close>: the characters that make a path a pattern (on Unix).\<close>

definition hasMeta :: "string \<Rightarrow> bool" where
  "hasMeta path = list_ex (\<lambda>c. c \<in> set [CHR 0x2A, CHR 0x3F, CHR 0x5B, CHR 0x5C]) path"

subsection \<open>Syntax trees\<close>

text \<open>
  The part of \<^verbatim>\<open>go/ast\<close> that the package reads. An \<^verbatim>\<open>ast.Expr\<close> in the
  position of a field type is one of the node kinds below; the last three are
  kinds for which the mapper has no case (\<open>OtherExpr\<close> carries what
  \<^verbatim>\<open>%T\<close> prints for the node). A field has its names, its type and its tag
  literal as written in the source, quotes included (\<open>None\<close> for a nil tag).
\<close>

datatype Expr =
    Ident string
  | ArrayType "Expr option" Expr
  | StarExpr Expr
  | SelectorExpr Expr string
  | StructType "Field list"
  | MapType Expr Expr
  | InterfaceType
  | FuncType
  | ChanType Expr
  | OtherExpr string
and Field = Field (Names: "string list") (Type: Expr) (Tag: "string option")

text \<open>
  A comment group is the list of its comments' texts, comment markers
  included; a nil group is \<open>None\<close>. Of a type spec the package reads the doc
  comment, the name and the type; of a general declaration the doc comment, the
  keyword and the specs; of a file the package name and the declarations.
\<close>

type_synonym CommentGroup = "string list"

datatype Spec =
    TypeSpec "CommentGroup option" string Expr
  | ImportSpec
  | ValueSpec

datatype Token = token_IMPORT | token_CONST | token_TYPE | token_VAR

datatype Decl =
    GenDecl "CommentGroup option" Token "Spec list"
  | FuncDecl
  | BadDecl

datatype File = File (PackageName: string) (Decls: "Decl list")

text \<open>What \<^verbatim>\<open>%T\<close> prints for a node.\<close>

fun typeName :: "Expr \<Rightarrow> string" where
  "typeName (Ident _) = ''*ast.Ident''"
| "typeName (ArrayType _ _) = ''*ast.ArrayType''"
| "typeName (StarExpr _) = ''*ast.StarExpr''"
| "typeName (SelectorExpr _ _) = ''*ast.SelectorExpr''"
| "typeName (StructType _) = ''*ast.StructType''"
| "typeName (MapType _ _) = ''*ast.MapType''"
| "typeName InterfaceType = ''*ast.InterfaceType''"
| "typeName FuncType = ''*ast.FuncType''"
| "typeName (ChanType _) = ''*ast.ChanType''"
| "typeName (OtherExpr n) = n"

subsection \<open>The type mapper\<close>

definition nativeTypes :: "string list" where
  "nativeTypes = [''text'', ''boolean'', ''int'', ''number'', ''date'', ''uuid'', ''object'']"

fun determineWeaviateDataType :: "golib \<Rightarrow> Expr \<Rightarrow> string + string list" where
  "determineWeaviateDataType L (Ident name) =
    (if name = ''string'' then Inr [''text'']
     else if name \<in> set [''int'', ''int8'', ''int16'', ''int32'', ''int64'',
                          ''uint'', ''uint8'', ''uint16'', ''uint32'', ''uint64'']
       then Inr [''int'']
     else if name \<in> set [''float16'', ''float32'', ''float64''] then Inr [''number'']
     else if name = ''bool'' then Inr [''boolean'']
     else if IsExported L name then Inr [name]
     else Inr [''text''])"
| "determineWeaviateDataType L (ArrayType len elt) =
    (case determineWeaviateDataType L elt of
       Inl err \<Rightarrow> Inl err
     | Inr elemType \<Rightarrow>
         if length elemType = 1 \<and> hd elemType \<in> set nativeTypes
           then Inr [hd elemType @ ''[]'']
         else if length elemType = 1 \<and> IsExported L (hd elemType)
           then Inr [hd elemType]
         else Inr [''object[]''])"
| "determineWeaviateDataType L (StarExpr x) = determineWeaviateDataType L x"
| "determineWeaviateDataType L (SelectorExpr x sel) =
    (case x of
       Ident name \<Rightarrow>
         if name = ''time'' \<and> sel = ''Time'' then Inr [''date'']
         else if name = ''uuid'' \<and> sel = ''UUID'' then Inr [''uuid'']
         else Inr [''text'']
     | _ \<Rightarrow> Inr [''text''])"
| "determineWeaviateDataType L (StructType flds) = Inr [''object'']"
| "determineWeaviateDataType L (MapType k v) = Inr [''object'']"
| "determineWeaviateDataType L InterfaceType = Inr [''text'']"
| "determineWeaviateDataType L e = Inl (''unsupported type: '' @ typeName e)"

subsection \<open>The schema\<close>

text \<open>
  The three structs of the package. The description of a property is the
  field \<open>Description\<close>, that of a class \<open>ClassDescription\<close> (both are
  \<^verbatim>\<open>Description\<close> in the source). A configuration value is what
  \<^verbatim>\<open>extractWeaviateClassConfig\<close> stores in its \<^verbatim>\<open>map[string]interface{}\<close>: a
  boolean, a float, a decoded JSON object or a string; a float and an object are
  represented by the text they were read from. A configuration map of a class
  is \<open>None\<close> when nil.
\<close>

record WeaviateProperty =
  Name :: string
  DataType :: "string list"
  Description :: string
  Tokenization :: string
  IndexFilterable :: bool
  IndexSearchable :: bool
  IndexInverted :: bool

record WeaviateClass =
  Package :: string
  Class :: string
  ClassDescription :: string
  VectorIndexType :: string
  VectorIndexConfig :: "string option"
  Properties :: "WeaviateProperty list"
  Vectorizer :: string
  ModuleConfig :: "string option"
  ShardingConfig :: "string option"
  ReplicationConfig :: "string option"
  InvertedIndexConfig :: "string option"

record WeaviateSchemaDefinition =
  Classes :: "WeaviateClass list"

datatype ConfigValue =
    BoolValue bool
  | FloatValue string
  | ObjectValue string
  | StringValue string

subsection \<open>Tags and markers\<close>

definition weaviateTag :: string where
  "weaviateTag = ''weave''"

definition weaviateMarker :: string where
  "weaviateMarker = ''+'' @ weaviateTag"

definition weaviateDescMarker :: string where
  "weaviateDescMarker = ''+'' @ weaviateTag @ '':desc:''"

definition weaviateConfigMarker :: string where
  "weaviateConfigMarker = ''+'' @ weaviateTag @ '':config:''"

definition extractJSONFieldName :: "golib \<Rightarrow> string \<Rightarrow> string" where
  "extractJSONFieldName L tagValue =
    (let jsonTag = Get L tagValue ''json''
     in if jsonTag = [] then []
        else (case Split jsonTag '','' of [] \<Rightarrow> [] | part # _ \<Rightarrow> part))"

definition extractWeaviateConfig :: "golib \<Rightarrow> string \<Rightarrow> (string \<rightharpoonup> string)" where
  "extractWeaviateConfig L tagValue =
    (let tag = Get L tagValue weaviateTag
     in if tag = [] then Map.empty
        else fold (\<lambda>part config.
                     case Split part ''='' of [k, v] \<Rightarrow> config(k \<mapsto> v) | _ \<Rightarrow> config)
               (Split tag '','') Map.empty)"

subsection \<open>The class builder\<close>

text \<open>
  \<open>weaviateConfig\<close> is nil (\<open>None\<close>) for a field without tag; looking a key
  up in a nil map finds nothing.
\<close>

definition lookupConfig :: "(string \<rightharpoonup> string) option \<Rightarrow> string \<Rightarrow> string option" where
  "lookupConfig weaviateConfig k = (case weaviateConfig of None \<Rightarrow> None | Some c \<Rightarrow> c k)"

text \<open>
  The body of the loop of \<^verbatim>\<open>processStruct\<close> from the choice of the property
  name on: the name, the data type (from the \<^verbatim>\<open>type\<close> key of the tag, and only
  without it from the mapper), the property with the other keys of the tag.
\<close>

definition buildProperty ::
  "golib \<Rightarrow> string \<Rightarrow> Expr \<Rightarrow> string \<Rightarrow> (string \<rightharpoonup> string) option
    \<Rightarrow> string + WeaviateProperty" where
  "buildProperty L fieldName fieldType propName0 weaviateConfig0 =
    (let propName =
           (if propName0 = [] then ToLower L (take 1 fieldName) @ drop 1 fieldName
            else propName0);
         override = lookupConfig weaviateConfig0 ''type'';
         weaviateConfig =
           (case override of
              None \<Rightarrow> weaviateConfig0
            | Some dt \<Rightarrow> map_option (\<lambda>c. c(''type'' := None)) weaviateConfig0)
     in case (case override of
                Some dt \<Rightarrow> Inr [dt]
              | None \<Rightarrow>
                  (case determineWeaviateDataType L fieldType of
                     Inl err \<Rightarrow>
                       Inl (''error determining data type for field '' @ fieldName @ '': '' @ err)
                   | Inr d \<Rightarrow> Inr d)) of
          Inl e \<Rightarrow> Inl e
        | Inr dataType \<Rightarrow>
            Inr \<lparr>Name = propName, DataType = dataType,
                 Description =
                   (case lookupConfig weaviateConfig ''description'' of
                      Some desc \<Rightarrow> desc | None \<Rightarrow> []),
                 Tokenization =
                   (case lookupConfig weaviateConfig ''tokenization'' of
                      Some tokenization \<Rightarrow> tokenization | None \<Rightarrow> []),
                 IndexFilterable =
                   (case lookupConfig weaviateConfig ''indexFilterable'' of
                      Some val \<Rightarrow> val = ''true'' | None \<Rightarrow> False),
                 IndexSearchable =
                   (case lookupConfig weaviateConfig ''indexSearchable'' of
                      Some val \<Rightarrow> val = ''true'' | None \<Rightarrow> False),
                 IndexInverted =
                   (case lookupConfig weaviateConfig ''indexInverted'' of
                      Some val \<Rightarrow> val = ''true'' | None \<Rightarrow> False)\<rparr>)"

text \<open>
  One round of the loop: \<open>Inl\<close> when \<^verbatim>\<open>processStruct\<close> returns the error,
  \<open>Inr None\<close> when the field is skipped (\<^verbatim>\<open>continue\<close>), \<open>Inr (Some p)\<close> when
  the property \<open>p\<close> is appended.
\<close>

definition processField :: "golib \<Rightarrow> Field \<Rightarrow> string + WeaviateProperty option" where
  "processField L field =
    (case Names field of
       [] \<Rightarrow> Inr None
     | fieldName # _ \<Rightarrow>
         if \<not> IsExported L fieldName then Inr None
         else
           (case Tag field of
              None \<Rightarrow> map_sum id Some (buildProperty L fieldName (Type field) [] None)
            | Some lit \<Rightarrow>
                (case Unquote L lit of
                   None \<Rightarrow> Inl ''error unquoting struct tag: invalid syntax''
                 | Some tagValue \<Rightarrow>
                     let propName = extractJSONFieldName L tagValue
                     in if propName = ''-'' then Inr None
                        else map_sum id Some
                               (buildProperty L fieldName (Type field) propName
                                  (Some (extractWeaviateConfig L tagValue))))))"

fun processFields ::
  "golib \<Rightarrow> Field list \<Rightarrow> WeaviateProperty list \<Rightarrow> string + WeaviateProperty list" where
  "processFields L [] properties = Inr properties"
| "processFields L (field # rest) properties =
    (case processField L field of
       Inl err \<Rightarrow> Inl err
     | Inr None \<Rightarrow> processFields L rest properties
     | Inr (Some property) \<Rightarrow> processFields L rest (properties @ [property]))"

definition processStruct :: "golib \<Rightarrow> string \<Rightarrow> string \<Rightarrow> Field list \<Rightarrow> string + WeaviateClass" where
  "processStruct L packageName structName flds =
    (case processFields L flds [] of
       Inl err \<Rightarrow> Inl err
     | Inr properties \<Rightarrow>
         Inr \<lparr>Package = packageName, Class = structName, ClassDescription = [],
              VectorIndexType = ''hnsw'', VectorIndexConfig = None,
              Properties = properties, Vectorizer = ''text2vec-contextionary'',
              ModuleConfig = None, ShardingConfig = None, ReplicationConfig = None,
              InvertedIndexConfig = None\<rparr>)"

subsection \<open>Markers, description and configuration of a class\<close>

definition hasWeaviateMarker :: "CommentGroup option \<Rightarrow> bool" where
  "hasWeaviateMarker cg =
    (case cg of None \<Rightarrow> False | Some cs \<Rightarrow> list_ex (\<lambda>c. Contains c weaviateMarker) cs)"

fun descriptionIn :: "golib \<Rightarrow> CommentGroup \<Rightarrow> string" where
  "descriptionIn L [] = []"
| "descriptionIn L (c # cs) =
    (if Contains c weaviateDescMarker then
       (case SplitN2 c weaviateDescMarker of
          _ # rest # _ \<Rightarrow> TrimSpace L rest
        | _ \<Rightarrow> descriptionIn L cs)
     else descriptionIn L cs)"

definition extractWeaviateDescription :: "golib \<Rightarrow> CommentGroup option \<Rightarrow> string" where
  "extractWeaviateDescription L cg = (case cg of None \<Rightarrow> [] | Some cs \<Rightarrow> descriptionIn L cs)"

text \<open>
  The value of a configuration pair: a boolean if \<^verbatim>\<open>strconv.ParseBool\<close> reads
  it, else a float if \<^verbatim>\<open>strconv.ParseFloat\<close> does, else a JSON object if it is
  in braces and decodes, else the string.
\<close>

definition coerce :: "golib \<Rightarrow> string \<Rightarrow> ConfigValue" where
  "coerce L v =
    (case ParseBool v of
       Some val \<Rightarrow> BoolValue val
     | None \<Rightarrow>
         if parsesAsFloat L v then FloatValue v
         else if HasPrefix v ''{'' \<and> HasSuffix v ''}'' then
           (if parsesAsJSONObject L v then ObjectValue v else StringValue v)
         else StringValue v)"

text \<open>
  The configuration map is an association list with one pair per key;
  \<^verbatim>\<open>config[key] = val\<close> is \<^const>\<open>AList.update\<close>.
\<close>

fun configParts ::
  "golib \<Rightarrow> string list \<Rightarrow> (string \<times> ConfigValue) list \<Rightarrow> (string \<times> ConfigValue) list" where
  "configParts L [] config = config"
| "configParts L (part # rest) config =
    (if part = [] then configParts L rest config
     else (case SplitN2 part ''='' of
             [k, v] \<Rightarrow>
               configParts L rest
                 (AList.update (TrimSpace L k) (coerce L (TrimSpace L v)) config)
           | _ \<Rightarrow> configParts L rest config))"

fun configIn ::
  "golib \<Rightarrow> CommentGroup \<Rightarrow> (string \<times> ConfigValue) list \<Rightarrow> (string \<times> ConfigValue) list" where
  "configIn L [] config = config"
| "configIn L (c # cs) config =
    (if Contains c weaviateConfigMarker then
       (case SplitN2 c weaviateConfigMarker of
          _ # rest # _ \<Rightarrow>
            configIn L cs (configParts L (Split (TrimSpace L rest) '';'') config)
        | _ \<Rightarrow> configIn L cs config)
     else configIn L cs config)"

definition extractWeaviateClassConfig ::
  "golib \<Rightarrow> CommentGroup option \<Rightarrow> (string \<times> ConfigValue) list" where
  "extractWeaviateClassConfig L cg = (case cg of None \<Rightarrow> [] | Some cs \<Rightarrow> configIn L cs [])"

subsection \<open>The run: file system, parser and map iteration\<close>

text \<open>
  What a run of the compiler takes from outside the package.
  \<^item> \<open>readDir\<close>: the names in a directory, in the order the operating system
    lists them, or \<open>Unreadable\<close> when the directory does not exist or cannot
    be read.
  \<^item> \<open>globPattern\<close>: the result of \<^verbatim>\<open>filepath.Glob\<close> when the directory
    argument itself holds pattern characters (the matches over several
    directories, or \<^verbatim>\<open>ErrBadPattern\<close>).
  \<^item> \<open>parseFile\<close>: the result of \<^verbatim>\<open>parser.ParseFile\<close> on a path, the syntax
    tree or the error.
  \<^item> \<open>rangeOrder\<close>: the order in which \<^verbatim>\<open>range\<close> visits the pairs of a map;
    Go leaves it unspecified, and it may differ from one run to the next.
\<close>

datatype Directory = Unreadable | Entries "string list"

record world =
  readDir :: "string \<Rightarrow> Directory"
  globPattern :: "string \<Rightarrow> string + string list"
  parseFile :: "string \<Rightarrow> string + File"
  rangeOrder :: "(string \<times> ConfigValue) list \<Rightarrow> (string \<times> ConfigValue) list"

text \<open>
  \<^verbatim>\<open>filepath.Glob(filepath.Join(dir, "*.go"))\<close>. Glob ignores the errors of
  reading a directory: a directory it cannot read has no matches. It sorts the
  names of a directory and reports those that end in \<^verbatim>\<open>.go\<close>, each joined to
  the directory.
\<close>

definition Glob :: "golib \<Rightarrow> world \<Rightarrow> string \<Rightarrow> string + string list" where
  "Glob L w dir =
    (if hasMeta dir then globPattern w dir
     else (case readDir w dir of
             Unreadable \<Rightarrow> Inr []
           | Entries names \<Rightarrow>
               Inr (map (\<lambda>n. joinPrefix L dir @ n)
                      (filter (\<lambda>n. suffix ''.go'' n) (sort names)))))"

subsection \<open>The class configuration\<close>

fun applyEntry :: "string \<times> ConfigValue \<Rightarrow> WeaviateClass \<Rightarrow> WeaviateClass" where
  "applyEntry (key, val) class =
    (if key = ''vectorIndexType'' then
       (case val of StringValue strValue \<Rightarrow> class\<lparr>VectorIndexType := strValue\<rparr> | _ \<Rightarrow> class)
     else if key = ''vectorizer'' then
       (case val of StringValue strValue \<Rightarrow> class\<lparr>Vectorizer := strValue\<rparr> | _ \<Rightarrow> class)
     else if key = ''vectorIndexConfig'' then
       (case val of ObjectValue mapValue \<Rightarrow> class\<lparr>VectorIndexConfig := Some mapValue\<rparr> | _ \<Rightarrow> class)
     else if key = ''moduleConfig'' then
       (case val of ObjectValue mapValue \<Rightarrow> class\<lparr>ModuleConfig := Some mapValue\<rparr> | _ \<Rightarrow> class)
     else if key = ''shardingConfig'' then
       (case val of ObjectValue mapValue \<Rightarrow> class\<lparr>ShardingConfig := Some mapValue\<rparr> | _ \<Rightarrow> class)
     else if key = ''replicationConfig'' then
       (case val of ObjectValue mapValue \<Rightarrow> class\<lparr>ReplicationConfig := Some mapValue\<rparr> | _ \<Rightarrow> class)
     else if key = ''invertedIndexConfig'' then
       (case val of ObjectValue mapValue \<Rightarrow> class\<lparr>InvertedIndexConfig := Some mapValue\<rparr> | _ \<Rightarrow> class)
     else class)"

definition applyClassConfig ::
  "world \<Rightarrow> WeaviateClass \<Rightarrow> (string \<times> ConfigValue) list \<Rightarrow> WeaviateClass" where
  "applyClassConfig w class config = fold applyEntry (rangeOrder w config) class"

subsection \<open>Files and directories\<close>

definition includeInWeaviate :: "CommentGroup option \<Rightarrow> CommentGroup option \<Rightarrow> bool" where
  "includeInWeaviate genDoc specDoc =
    (if \<not> hasWeaviateMarker genDoc then hasWeaviateMarker specDoc else True)"

text \<open>
  The body of the inner loop of \<^verbatim>\<open>processFileAST\<close>, for one spec of a type
  declaration. The functions return the schema as the loop has extended it, or
  the error; with an error \<^verbatim>\<open>GenerateWeaviateSchema\<close> returns no schema.
\<close>

definition processSpec ::
  "golib \<Rightarrow> world \<Rightarrow> string \<Rightarrow> CommentGroup option \<Rightarrow> Spec \<Rightarrow> WeaviateSchemaDefinition
    \<Rightarrow> string + WeaviateSchemaDefinition" where
  "processSpec L w packageName genDoc spec schema =
    (case spec of
       TypeSpec specDoc name (StructType flds) \<Rightarrow>
         if \<not> includeInWeaviate genDoc specDoc then Inr schema
         else
           (let description0 = extractWeaviateDescription L genDoc;
                description =
                  (if description0 = [] then extractWeaviateDescription L specDoc
                   else description0);
                config0 = extractWeaviateClassConfig L genDoc;
                config =
                  (if length config0 = 0 then extractWeaviateClassConfig L specDoc
                   else config0)
            in case processStruct L packageName name flds of
                 Inl err \<Rightarrow> Inl (''error processing struct '' @ name @ '': '' @ err)
               | Inr class \<Rightarrow>
                   Inr (schema\<lparr>Classes := Classes schema @
                          [applyClassConfig w
                             (if description \<noteq> [] then class\<lparr>ClassDescription := description\<rparr>
                              else class)
                             config]\<rparr>))
     | _ \<Rightarrow> Inr schema)"

fun processSpecs ::
  "golib \<Rightarrow> world \<Rightarrow> string \<Rightarrow> CommentGroup option \<Rightarrow> Spec list \<Rightarrow> WeaviateSchemaDefinition
    \<Rightarrow> string + WeaviateSchemaDefinition" where
  "processSpecs L w packageName genDoc [] schema = Inr schema"
| "processSpecs L w packageName genDoc (spec # rest) schema =
    (case processSpec L w packageName genDoc spec schema of
       Inl err \<Rightarrow> Inl err
     | Inr schema' \<Rightarrow> processSpecs L w packageName genDoc rest schema')"

fun processDecls ::
  "golib \<Rightarrow> world \<Rightarrow> string \<Rightarrow> Decl list \<Rightarrow> WeaviateSchemaDefinition
    \<Rightarrow> string + WeaviateSchemaDefinition" where
  "processDecls L w packageName [] schema = Inr schema"
| "processDecls L w packageName (decl # rest) schema =
    (case decl of
       GenDecl genDoc token_TYPE specs \<Rightarrow>
         (case processSpecs L w packageName genDoc specs schema of
            Inl err \<Rightarrow> Inl err
          | Inr schema' \<Rightarrow> processDecls L w packageName rest schema')
     | _ \<Rightarrow> processDecls L w packageName rest schema)"

definition processFileAST ::
  "golib \<Rightarrow> world \<Rightarrow> File \<Rightarrow> WeaviateSchemaDefinition \<Rightarrow> string + WeaviateSchemaDefinition" where
  "processFileAST L w file schema = processDecls L w (PackageName file) (Decls file) schema"

fun processFiles ::
  "golib \<Rightarrow> world \<Rightarrow> string list \<Rightarrow> WeaviateSchemaDefinition
    \<Rightarrow> string + WeaviateSchemaDefinition" where
  "processFiles L w [] schema = Inr schema"
| "processFiles L w (path # rest) schema =
    (case parseFile w path of
       Inl err \<Rightarrow> Inl (''error parsing file '' @ path @ '': '' @ err)
     | Inr goFile \<Rightarrow>
         (case processFileAST L w goFile schema of
            Inl err \<Rightarrow> Inl err
          | Inr schema' \<Rightarrow> processFiles L w rest schema'))"

definition processGoFiles ::
  "golib \<Rightarrow> world \<Rightarrow> string \<Rightarrow> WeaviateSchemaDefinition \<Rightarrow> string + WeaviateSchemaDefinition" where
  "processGoFiles L w dir schema =
    (case Glob L w dir of
       Inl err \<Rightarrow> Inl (''error reading directory '' @ dir @ '': '' @ err)
     | Inr files \<Rightarrow> processFiles L w files schema)"

definition GenerateWeaviateSchema :: "golib \<Rightarrow> world \<Rightarrow> string \<Rightarrow> string + WeaviateSchemaDefinition" where
  "GenerateWeaviateSchema L w srcDir = processGoFiles L w srcDir \<lparr>Classes = []\<rparr>"

subsection \<open>Vocabulary of the properties\<close>

text \<open>
  An instance of the library parameters, for running the model on inputs on
  which none of the tables and decoders is consulted (ASCII names, tags without
  escape sequences). Of a clean directory path \<open>d\<close> other than \<^verbatim>\<open>.\<close> and
  \<^verbatim>\<open>/\<close> a file is reported as \<^verbatim>\<open>d/name\<close>.
\<close>

definition asciiLib :: golib where
  "asciiLib = \<lparr>upperTable = (\<lambda>_. False), unquoteEscaped = (\<lambda>_. None), lowerUnicode = id,
     trimUnicode = id, trimRightUnicode = id, parsesAsFloat = (\<lambda>_. False),
     parsesAsJSONObject = (\<lambda>_. False), joinPrefix = (\<lambda>d. d @ ''/'')\<rparr>"

text \<open>
  The identifiers of the integer types, signed and unsigned, without a width
  and with the widths 8 to 64, and those of the floating-point types. Go
  predeclares three more identifiers of integer types: \<^verbatim>\<open>uintptr\<close>, and the
  aliases \<^verbatim>\<open>byte\<close> and \<^verbatim>\<open>rune\<close>.
\<close>

definition integerIdentifiers :: "string list" where
  "integerIdentifiers =
    [sign @ width. sign \<leftarrow> [''int'', ''uint''], width \<leftarrow> ['''', ''8'', ''16'', ''32'', ''64'']]"

definition floatIdentifiers :: "string list" where
  "floatIdentifiers = [''float'' @ width. width \<leftarrow> [''16'', ''32'', ''64'']]"

definition predeclaredIntegerIdentifiers :: "string list" where
  "predeclaredIntegerIdentifiers = integerIdentifiers @ [''uintptr'', ''byte'', ''rune'']"

text \<open>
  The struct declarations of a file in the order in which \<^verbatim>\<open>processFileAST\<close>
  reaches them: the type specs with a struct type, of the type declarations,
  each with its package, the doc comment of its declaration group, its own doc
  comment, its name and its fields. \<open>scannedStructs\<close> lists them for the files of
  a directory, in the order of the files; \<open>parses\<close> says that the parser
  accepts a file.
\<close>

record StructDecl =
  declPackage :: string
  groupDoc :: "CommentGroup option"
  typeDoc :: "CommentGroup option"
  declName :: string
  declFields :: "Field list"

fun structsOfSpecs :: "string \<Rightarrow> CommentGroup option \<Rightarrow> Spec list \<Rightarrow> StructDecl list" where
  "structsOfSpecs packageName genDoc [] = []"
| "structsOfSpecs packageName genDoc (spec # rest) =
    (case spec of
       TypeSpec specDoc name (StructType flds) \<Rightarrow>
         [\<lparr>declPackage = packageName, groupDoc = genDoc, typeDoc = specDoc, declName = name,
           declFields = flds\<rparr>]
     | _ \<Rightarrow> []) @ structsOfSpecs packageName genDoc rest"

fun structsOfDecls :: "string \<Rightarrow> Decl list \<Rightarrow> StructDecl list" where
  "structsOfDecls packageName [] = []"
| "structsOfDecls packageName (decl # rest) =
    (case decl of
       GenDecl genDoc token_TYPE specs \<Rightarrow> structsOfSpecs packageName genDoc specs
     | _ \<Rightarrow> []) @ structsOfDecls packageName rest"

definition structsOf :: "File \<Rightarrow> StructDecl list" where
  "structsOf file = structsOfDecls (PackageName file) (Decls file)"

definition scannedStructs :: "world \<Rightarrow> string list \<Rightarrow> StructDecl list" where
  "scannedStructs w files =
    concat (map (\<lambda>path. case parseFile w path of Inl err \<Rightarrow> [] | Inr goFile \<Rightarrow> structsOf goFile)
              files)"

definition parses :: "world \<Rightarrow> string \<Rightarrow> bool" where
  "parses w path = (case parseFile w path of Inl err \<Rightarrow> False | Inr goFile \<Rightarrow> True)"

definition processStructDecl ::
  "golib \<Rightarrow> world \<Rightarrow> StructDecl \<Rightarrow> WeaviateSchemaDefinition \<Rightarrow> string + WeaviateSchemaDefinition" where
  "processStructDecl L w d schema =
    processSpec L w (declPackage d) (groupDoc d)
      (TypeSpec (typeDoc d) (declName d) (StructType (declFields d))) schema"

fun processAll ::
  "golib \<Rightarrow> world \<Rightarrow> StructDecl list \<Rightarrow> WeaviateSchemaDefinition
    \<Rightarrow> string + WeaviateSchemaDefinition" where
  "processAll L w [] schema = Inr schema"
| "processAll L w (d # rest) schema =
    (case processStructDecl L w d schema of
       Inl err \<Rightarrow> Inl err
     | Inr schema' \<Rightarrow> processAll L w rest schema')"

text \<open>
  Go literals, for writing tags: \<open>quoted s\<close> is \<open>s\<close> in double quotes and
  \<open>rawLiteral s\<close> is \<open>s\<close> in back quotes.
\<close>

definition quoted :: "string \<Rightarrow> string" where
  "quoted s = CHR 0x22 # s @ [CHR 0x22]"

definition rawLiteral :: "string \<Rightarrow> string" where
  "rawLiteral s = CHR 0x60 # s @ [CHR 0x60]"

text \<open>
  A run in which no directory can be read and no file be opened, and the
  field name \<^verbatim>\<open>Uber\<close> with U umlaut (U+00DC, in UTF-8 the bytes C3 9C) as its
  first letter.
\<close>

definition emptyWorld :: world where
  "emptyWorld =
    \<lparr>readDir = (\<lambda>dir. Unreadable),
     globPattern = (\<lambda>dir. Inl ''syntax error in pattern''),
     parseFile = (\<lambda>path. Inl (''open '' @ path @ '': no such file or directory'')),
     rangeOrder = (\<lambda>config. config)\<rparr>"

definition Uber :: string where
  "Uber = [CHR 0xC3, CHR 0x9C] @ ''ber''"

text \<open>
  The struct declarations that a compilation of a directory reaches, and
  whether all of its files parse. A declaration is \<open>included\<close> when
  \<^verbatim>\<open>processFileAST\<close> finds the marker for it. A class and the declaration it is
  built from are compared by package and name.
\<close>

definition scannedIn :: "golib \<Rightarrow> world \<Rightarrow> string \<Rightarrow> StructDecl list" where
  "scannedIn L w dir =
    (case Glob L w dir of Inl err \<Rightarrow> [] | Inr files \<Rightarrow> scannedStructs w files)"

definition allParse :: "golib \<Rightarrow> world \<Rightarrow> string \<Rightarrow> bool" where
  "allParse L w dir =
    (case Glob L w dir of Inl err \<Rightarrow> False | Inr files \<Rightarrow> list_all (parses w) files)"

definition included :: "StructDecl \<Rightarrow> bool" where
  "included d = includeInWeaviate (groupDoc d) (typeDoc d)"

definition declKey :: "StructDecl \<Rightarrow> string \<times> string" where
  "declKey d = (declPackage d, declName d)"

definition classKey :: "WeaviateClass \<Rightarrow> string \<times> string" where
  "classKey c = (Package c, Class c)"

text \<open>
  The type that is left of a field's type when the array and pointer shapes
  around it are taken off. A type is \<open>unsupported\<close> when what is left is a node
  kind for which the mapper has no case (a function type, a channel type, any
  other expression).
\<close>

fun innermost :: "Expr \<Rightarrow> Expr" where
  "innermost (ArrayType len elt) = innermost elt"
| "innermost (StarExpr x) = innermost x"
| "innermost e = e"

definition unsupported :: "Expr \<Rightarrow> bool" where
  "unsupported e =
    (case innermost e of
       FuncType \<Rightarrow> True | ChanType x \<Rightarrow> True | OtherExpr n \<Rightarrow> True | _ \<Rightarrow> False)"



text \<open>
  Three source files and a run that finds them: a marked struct with an
  unmarked one beside it, a marked struct with an unexported field of function
  type, and a marked struct with an exported field of function type.
\<close>

definition articleFile :: File where
  "articleFile = File ''models''
    [GenDecl (Some [''// Article is a news article.'', ''// +weave'',
                    ''// +weave:desc: A news article''])
       token_TYPE
       [TypeSpec None ''Article''
          (StructType
            [Field [''Title''] (Ident ''string'') None,
             Field [''Tags''] (ArrayType None (Ident ''string''))
               (Some (rawLiteral (''weave:'' @ quoted ''tags,indexSearchable=true'')))])],
     FuncDecl,
     GenDecl (Some [''// Draft is kept out of the schema.'']) token_TYPE
       [TypeSpec None ''Draft'' (StructType [Field [''Body''] (Ident ''string'') None])]]"

definition handlerFile :: File where
  "handlerFile = File ''handlers''
    [GenDecl (Some [''// +weave'']) token_TYPE
       [TypeSpec None ''Handler''
          (StructType
            [Field [''Name''] (Ident ''string'') None,
             Field [''callback''] FuncType None])]]"

definition listenerFile :: File where
  "listenerFile = File ''listeners''
    [GenDecl (Some [''// +weave'']) token_TYPE
       [TypeSpec None ''Listener''
          (StructType
            [Field [''Name''] (Ident ''string'') None,
             Field [''OnEvent''] FuncType None])]]"

definition exampleWorld :: world where
  "exampleWorld =
    \<lparr>readDir = (\<lambda>dir. if dir = ''models'' then Entries [''notes.txt'', ''article.go'']
                      else if dir = ''handlers'' then Entries [''handler.go'']
                      else if dir = ''listeners'' then Entries [''listener.go'']
                      else Unreadable),
     globPattern = (\<lambda>dir. Inl ''syntax error in pattern''),
     parseFile = (\<lambda>path. if path = ''models/article.go'' then Inr articleFile
                        else if path = ''handlers/handler.go'' then Inr handlerFile
                        else if path = ''listeners/listener.go'' then Inr listenerFile
                        else Inl (''open '' @ path @ '': no such file or directory'')),
     rangeOrder = (\<lambda>config. config)\<rparr>"

definition articleDecl :: StructDecl where
  "articleDecl =
    \<lparr>declPackage = ''models'',
     groupDoc = Some [''// Article is a news article.'', ''// +weave'',
                      ''// +weave:desc: A news article''],
     typeDoc = None, declName = ''Article'',
     declFields =
       [Field [''Title''] (Ident ''string'') None,
        Field [''Tags''] (ArrayType None (Ident ''string''))
          (Some (rawLiteral (''weave:'' @ quoted ''tags,indexSearchable=true'')))]\<rparr>"

definition draftDecl :: StructDecl where
  "draftDecl =
    \<lparr>declPackage = ''models'', groupDoc = Some [''// Draft is kept out of the schema.''],
     typeDoc = None, declName = ''Draft'',
     declFields = [Field [''Body''] (Ident ''string'') None]\<rparr>"



definition articleClass :: WeaviateClass where
  "articleClass =
    \<lparr>Package = ''models'', Class = ''Article'', ClassDescription = ''A news article'',
     VectorIndexType = ''hnsw'', VectorIndexConfig = None,
     Properties =
       [\<lparr>Name = ''title'', DataType = [''text''], Description = [], Tokenization = [],
         IndexFilterable = False, IndexSearchable = False, IndexInverted = False\<rparr>,
        \<lparr>Name = ''tags'', DataType = [''text[]''], Description = [], Tokenization = [],
         IndexFilterable = False, IndexSearchable = True, IndexInverted = False\<rparr>],
     Vectorizer = ''text2vec-contextionary'', ModuleConfig = None, ShardingConfig = None,
     ReplicationConfig = None, InvertedIndexConfig = None\<rparr>"

text \<open>
  Two runs on the same input: the same directory content, the same result of
  Glob where the argument is a pattern, and the same parse of every file; the
  order in which the operating system lists the directory may differ. A run
  \<open>permutes\<close> when \<^verbatim>\<open>range\<close> visits every pair of a map once, in whatever
  order.
\<close>

definition sameDirectory :: "world \<Rightarrow> world \<Rightarrow> string \<Rightarrow> bool" where
  "sameDirectory w w' dir =
    (parseFile w' = parseFile w \<and> globPattern w' dir = globPattern w dir \<and>
     (case readDir w dir of
        Unreadable \<Rightarrow> readDir w' dir = Unreadable
      | Entries names \<Rightarrow>
          (case readDir w' dir of
             Unreadable \<Rightarrow> False
           | Entries names' \<Rightarrow> mset names' = mset names)))"

definition permutes :: "world \<Rightarrow> bool" where
  "permutes w = (\<forall>config. mset (rangeOrder w config) = mset config)"

text \<open>
  A directory with two source files and two runs on it, which differ in the
  order of the directory listing and in the order of map iteration.
\<close>

definition authorFile :: File where
  "authorFile = File ''library''
    [GenDecl (Some [''// +weave'', ''// +weave:config: vectorizer=none;vectorIndexType=flat''])
       token_TYPE
       [TypeSpec None ''Author'' (StructType [Field [''Name''] (Ident ''string'') None])]]"

definition bookFile :: File where
  "bookFile = File ''library''
    [GenDecl (Some [''// +weave'']) token_TYPE
       [TypeSpec None ''Book''
          (StructType
            [Field [''Title''] (Ident ''string'') None,
             Field [''Authors''] (ArrayType None (Ident ''Author'')) None])]]"

definition libraryWorld :: world where
  "libraryWorld =
    \<lparr>readDir = (\<lambda>dir. if dir = ''library'' then Entries [''book.go'', ''author.go'', ''README.md'']
                      else Unreadable),
     globPattern = (\<lambda>dir. Inl ''syntax error in pattern''),
     parseFile = (\<lambda>path. if path = ''library/author.go'' then Inr authorFile
                        else if path = ''library/book.go'' then Inr bookFile
                        else Inl (''open '' @ path @ '': no such file or directory'')),
     rangeOrder = (\<lambda>config. config)\<rparr>"

definition libraryWorld' :: world where
  "libraryWorld' =
    libraryWorld
      \<lparr>readDir := (\<lambda>dir. if dir = ''library'' then Entries [''README.md'', ''author.go'', ''book.go'']
                       else Unreadable),
       rangeOrder := rev\<rparr>"

definition librarySchema :: WeaviateSchemaDefinition where
  "librarySchema =
    \<lparr>Classes =
      [\<lparr>Package = ''library'', Class = ''Author'', ClassDescription = [],
        VectorIndexType = ''flat'', VectorIndexConfig = None,
        Properties =
          [\<lparr>Name = ''name'', DataType = [''text''], Description = [], Tokenization = [],
            IndexFilterable = False, IndexSearchable = False, IndexInverted = False\<rparr>],
        Vectorizer = ''none'', ModuleConfig = None, ShardingConfig = None,
        ReplicationConfig = None, InvertedIndexConfig = None\<rparr>,
       \<lparr>Package = ''library'', Class = ''Book'', ClassDescription = [],
        VectorIndexType = ''hnsw'', VectorIndexConfig = None,
        Properties =
          [\<lparr>Name = ''title'', DataType = [''text''], Description = [], Tokenization = [],
            IndexFilterable = False, IndexSearchable = False, IndexInverted = False\<rparr>,
           \<lparr>Name = ''authors'', DataType = [''Author''], Description = [], Tokenization = [],
            IndexFilterable = False, IndexSearchable = False, IndexInverted = False\<rparr>],
        Vectorizer = ''text2vec-contextionary'', ModuleConfig = None, ShardingConfig = None,
        ReplicationConfig = None, InvertedIndexConfig = None\<rparr>]\<rparr>"

section \<open>Properties\<close>

subsection \<open>The type mapper\<close>

lemma IsExported_ascii:
  "byte c < 0x80 \<Longrightarrow> IsExported L (c # cs) = (0x41 \<le> byte c \<and> byte c \<le> 0x5A)"
  by (auto simp: IsExported_def IsUpper_def Let_def)

lemma IsExported_nonempty: "IsExported L name \<Longrightarrow> name \<noteq> []"
  by (auto simp: IsExported_def IsUpper_def RuneError_def)

lemma native_not_exported: "t \<in> set nativeTypes \<Longrightarrow> \<not> IsExported L t"
  by (auto simp: nativeTypes_def IsExported_def IsUpper_def byte_def)

lemma mapper_single: "determineWeaviateDataType L X = Inr ts \<Longrightarrow> length ts = 1"
proof (induction L X arbitrary: ts rule: determineWeaviateDataType.induct)
  case (1 L name)
  then show ?case by (auto simp del: list.set split: if_splits)
next
  case (2 L len elt)
  then show ?case by (auto simp del: list.set split: sum.splits if_splits)
next
  case (3 L x)
  then show ?case by simp
next
  case (4 L x sel)
  then show ?case by (cases x) (auto split: if_splits)
qed auto

text \<open>
  Claim C1. The mapper on an array of \<open>X\<close>: when the mapper gives one token for
  \<open>X\<close> and the token is one of text, boolean, int, number, date, uuid and
  object, the result is that token with \<^verbatim>\<open>[]\<close> behind it; when it gives one
  token that starts with an upper-case letter, the result is that token
  unchanged; in every other case where the mapper succeeds on \<open>X\<close> the result
  is the token \<^verbatim>\<open>object[]\<close>.
\<close>

theorem array_rule:
  "(\<forall>t. determineWeaviateDataType L X = Inr [t] \<and>
        t \<in> {''text'', ''boolean'', ''int'', ''number'', ''date'', ''uuid'', ''object''}
        \<longrightarrow> determineWeaviateDataType L (ArrayType len X) = Inr [t @ ''[]'']) \<and>
   (\<forall>t. determineWeaviateDataType L X = Inr [t] \<and> IsExported L t
        \<longrightarrow> determineWeaviateDataType L (ArrayType len X) = Inr [t]) \<and>
   (\<forall>ts. determineWeaviateDataType L X = Inr ts \<and>
         \<not> (\<exists>t. ts = [t] \<and>
                (t \<in> {''text'', ''boolean'', ''int'', ''number'', ''date'', ''uuid'', ''object''}
                 \<or> IsExported L t))
        \<longrightarrow> determineWeaviateDataType L (ArrayType len X) = Inr [''object[]''])"
proof (intro conjI allI impI)
  fix t
  assume "determineWeaviateDataType L X = Inr [t] \<and>
        t \<in> {''text'', ''boolean'', ''int'', ''number'', ''date'', ''uuid'', ''object''}"
  then show "determineWeaviateDataType L (ArrayType len X) = Inr [t @ ''[]'']"
    by (simp add: nativeTypes_def)
next
  fix t
  assume a: "determineWeaviateDataType L X = Inr [t] \<and> IsExported L t"
  then have "t \<notin> set nativeTypes"
    using native_not_exported by blast
  with a show "determineWeaviateDataType L (ArrayType len X) = Inr [t]"
    by simp
next
  fix ts
  assume a: "determineWeaviateDataType L X = Inr ts \<and>
         \<not> (\<exists>t. ts = [t] \<and>
                (t \<in> {''text'', ''boolean'', ''int'', ''number'', ''date'', ''uuid'', ''object''}
                 \<or> IsExported L t))"
  then have "length ts = 1"
    using mapper_single by blast
  then obtain t where ts: "ts = [t]"
    by (cases ts) auto
  with a have "t \<notin> set nativeTypes" and "\<not> IsExported L t"
    by (auto simp: nativeTypes_def)
  with a ts show "determineWeaviateDataType L (ArrayType len X) = Inr [''object[]'']"
    by simp
qed

theorem array_rule_witness:
  "determineWeaviateDataType asciiLib (Ident ''string'') = Inr [''text''] \<and>
   determineWeaviateDataType asciiLib (ArrayType None (Ident ''string'')) = Inr [''text[]''] \<and>
   determineWeaviateDataType asciiLib (Ident ''Person'') = Inr [''Person''] \<and>
   IsExported asciiLib ''Person'' \<and>
   determineWeaviateDataType asciiLib (ArrayType None (Ident ''Person'')) = Inr [''Person''] \<and>
   determineWeaviateDataType asciiLib (ArrayType None (Ident ''int'')) = Inr [''int[]''] \<and>
   \<not> IsExported asciiLib ''int[]'' \<and>
   determineWeaviateDataType asciiLib (ArrayType None (ArrayType None (Ident ''int'')))
     = Inr [''object[]'']"
proof -
  have e1: "IsExported asciiLib ''Person''"
    by (simp add: IsExported_def IsUpper_def byte_def)
  have e2: "\<not> IsExported asciiLib ''int[]''"
    by (simp add: IsExported_def IsUpper_def byte_def)
  have m1: "determineWeaviateDataType asciiLib (Ident ''string'') = Inr [''text'']"
    by simp
  have m2: "determineWeaviateDataType asciiLib (Ident ''Person'') = Inr [''Person'']"
    using e1 by simp
  have m3: "determineWeaviateDataType asciiLib (ArrayType None (Ident ''int'')) = Inr [''int[]'']"
    by (simp add: nativeTypes_def)
  have "determineWeaviateDataType asciiLib (ArrayType None (Ident ''string''))
          = Inr [''text'' @ ''[]'']"
    by (rule array_rule [THEN conjunct1, THEN spec, THEN mp]) (simp add: m1)
  then have a1:
    "determineWeaviateDataType asciiLib (ArrayType None (Ident ''string'')) = Inr [''text[]'']"
    by simp
  have a2: "determineWeaviateDataType asciiLib (ArrayType None (Ident ''Person'')) = Inr [''Person'']"
    by (rule array_rule [THEN conjunct2, THEN conjunct1, THEN spec, THEN mp])
       (simp only: m2 e1 simp_thms)
  have n3: "\<not> (\<exists>t. [''int[]''] = [t] \<and>
                (t \<in> {''text'', ''boolean'', ''int'', ''number'', ''date'', ''uuid'', ''object''}
                 \<or> IsExported asciiLib t))"
    using e2 by simp
  have a3: "determineWeaviateDataType asciiLib (ArrayType None (ArrayType None (Ident ''int'')))
     = Inr [''object[]'']"
    by (rule array_rule [THEN conjunct2, THEN conjunct2, THEN spec, THEN mp])
       (rule conjI [OF m3 n3])
  from e1 e2 m1 m2 m3 a1 a2 a3 show ?thesis by (intro conjI)
qed

text \<open>
  Claim C2, amended. The mapper on a named identifier: \<^verbatim>\<open>string\<close> gives text;
  the integer identifiers \<^verbatim>\<open>int\<close> and \<^verbatim>\<open>uint\<close>, without a width and with the
  widths 8, 16, 32 and 64, give int; the floating-point identifiers
  \<^verbatim>\<open>float16\<close>, \<^verbatim>\<open>float32\<close> and \<^verbatim>\<open>float64\<close> give number; \<^verbatim>\<open>bool\<close> gives
  boolean; and any other name, the integer identifiers \<^verbatim>\<open>uintptr\<close>, \<^verbatim>\<open>byte\<close>
  and \<^verbatim>\<open>rune\<close> among them, gives the name itself when it starts with an
  upper-case letter and text otherwise.
\<close>

theorem identifier_rule:
  "determineWeaviateDataType L (Ident ''string'') = Inr [''text''] \<and>
   (\<forall>name \<in> set integerIdentifiers. determineWeaviateDataType L (Ident name) = Inr [''int'']) \<and>
   (\<forall>name \<in> set floatIdentifiers. determineWeaviateDataType L (Ident name) = Inr [''number'']) \<and>
   determineWeaviateDataType L (Ident ''bool'') = Inr [''boolean''] \<and>
   (\<forall>name. name \<noteq> ''string'' \<and> name \<notin> set integerIdentifiers \<and> name \<notin> set floatIdentifiers \<and>
      name \<noteq> ''bool''
      \<longrightarrow> determineWeaviateDataType L (Ident name) =
            (if IsExported L name then Inr [name] else Inr [''text'']))"
  by (simp add: integerIdentifiers_def floatIdentifiers_def)

theorem identifier_rule_witness:
  "''uint16'' \<in> set integerIdentifiers \<and>
   determineWeaviateDataType asciiLib (Ident ''uint16'') = Inr [''int''] \<and>
   ''float32'' \<in> set floatIdentifiers \<and>
   determineWeaviateDataType asciiLib (Ident ''float32'') = Inr [''number''] \<and>
   ''Author'' \<notin> set integerIdentifiers \<and> ''Author'' \<notin> set floatIdentifiers \<and>
   IsExported asciiLib ''Author'' \<and>
   determineWeaviateDataType asciiLib (Ident ''Author'') = Inr [''Author''] \<and>
   ''uintptr'' \<notin> set integerIdentifiers \<and> ''uintptr'' \<notin> set floatIdentifiers \<and>
   \<not> IsExported asciiLib ''uintptr'' \<and>
   determineWeaviateDataType asciiLib (Ident ''uintptr'') = Inr [''text'']"
proof -
  have i: "''uint16'' \<in> set integerIdentifiers" "''float32'' \<in> set floatIdentifiers"
    "''Author'' \<notin> set integerIdentifiers" "''Author'' \<notin> set floatIdentifiers"
    "''uintptr'' \<notin> set integerIdentifiers" "''uintptr'' \<notin> set floatIdentifiers"
    by (simp_all add: integerIdentifiers_def floatIdentifiers_def)
  have e: "IsExported asciiLib ''Author''" "\<not> IsExported asciiLib ''uintptr''"
    by (simp_all add: IsExported_def IsUpper_def byte_def)
  note r = identifier_rule [of asciiLib]
  from r i(1) have "determineWeaviateDataType asciiLib (Ident ''uint16'') = Inr [''int'']"
    by blast
  moreover from r i(2) have "determineWeaviateDataType asciiLib (Ident ''float32'') = Inr [''number'']"
    by blast
  moreover from r i(3,4) e(1)
  have "determineWeaviateDataType asciiLib (Ident ''Author'') = Inr [''Author'']"
    by simp
  moreover from r i(5,6) e(2)
  have "determineWeaviateDataType asciiLib (Ident ''uintptr'') = Inr [''text'']"
    by simp
  ultimately show ?thesis using i e by blast
qed

text \<open>
  The claim as stated, int for every integer identifier, does not hold: the
  mapper lists ten names, and the other integer identifiers that Go predeclares
  are not among them. They do not start with an upper-case letter, so each of
  them gives text.
\<close>

theorem integer_identifier_counterexample:
  "''uintptr'' \<in> set predeclaredIntegerIdentifiers \<and>
   determineWeaviateDataType asciiLib (Ident ''uintptr'') = Inr [''text''] \<and>
   determineWeaviateDataType asciiLib (Ident ''uintptr'') \<noteq> Inr [''int''] \<and>
   ''byte'' \<in> set predeclaredIntegerIdentifiers \<and>
   determineWeaviateDataType asciiLib (Ident ''byte'') = Inr [''text''] \<and>
   ''rune'' \<in> set predeclaredIntegerIdentifiers \<and>
   determineWeaviateDataType asciiLib (Ident ''rune'') = Inr [''text'']"
  by (intro conjI; code_simp)

text \<open>
  Claim C7. The mapper on a pointer to \<open>X\<close> returns what it returns on \<open>X\<close>,
  tokens or error.
\<close>

theorem pointer_rule:
  "determineWeaviateDataType L (StarExpr X) = determineWeaviateDataType L X"
  by simp

theorem pointer_rule_witness:
  "determineWeaviateDataType asciiLib (StarExpr (Ident ''int64'')) = Inr [''int''] \<and>
   determineWeaviateDataType asciiLib (StarExpr FuncType) = Inl ''unsupported type: *ast.FuncType''"
  using pointer_rule [of asciiLib "Ident ''int64''"] pointer_rule [of asciiLib FuncType]
  by simp

subsection \<open>The scan as one loop over the struct declarations\<close>

lemma processAll_append:
  "processAll L w (xs @ ys) schema =
    (case processAll L w xs schema of Inl err \<Rightarrow> Inl err | Inr s \<Rightarrow> processAll L w ys s)"
  by (induction xs arbitrary: schema) (auto split: sum.splits)

lemma processSpec_other:
  "(\<And>specDoc name flds. spec \<noteq> TypeSpec specDoc name (StructType flds))
    \<Longrightarrow> processSpec L w packageName genDoc spec schema = Inr schema"
  by (auto simp: processSpec_def split: Spec.splits Expr.splits)

lemma processSpecs_flat:
  "processSpecs L w packageName genDoc specs schema =
    processAll L w (structsOfSpecs packageName genDoc specs) schema"
proof (induction specs arbitrary: schema)
  case Nil
  then show ?case by simp
next
  case (Cons spec rest)
  show ?case
  proof (cases "\<exists>specDoc name flds. spec = TypeSpec specDoc name (StructType flds)")
    case True
    then obtain specDoc name flds where s: "spec = TypeSpec specDoc name (StructType flds)"
      by blast
    show ?thesis
      by (simp add: s processStructDecl_def Cons.IH split: sum.splits)
  next
    case False
    then have o: "processSpec L w packageName genDoc spec schema = Inr schema"
      by (intro processSpec_other) blast
    from False have e: "(case spec of
       TypeSpec specDoc name (StructType flds) \<Rightarrow>
         [\<lparr>declPackage = packageName, groupDoc = genDoc, typeDoc = specDoc, declName = name,
           declFields = flds\<rparr>]
     | _ \<Rightarrow> []) = []"
      by (auto split: Spec.splits Expr.splits)
    show ?thesis
      by (simp add: o e Cons.IH)
  qed
qed

lemma processDecls_flat:
  "processDecls L w packageName decls schema =
    processAll L w (structsOfDecls packageName decls) schema"
proof (induction decls arbitrary: schema)
  case Nil
  then show ?case by simp
next
  case (Cons decl rest)
  show ?case
  proof (cases decl)
    case (GenDecl genDoc tok specs)
    then show ?thesis
      by (cases tok) (simp_all add: Cons.IH processSpecs_flat processAll_append split: sum.splits)
  qed (simp_all add: Cons.IH)
qed

lemma processFileAST_flat:
  "processFileAST L w file schema = processAll L w (structsOf file) schema"
  by (simp add: processFileAST_def structsOf_def processDecls_flat)

lemma scannedStructs_simps:
  "scannedStructs w [] = []"
  "scannedStructs w (path # rest) =
    (case parseFile w path of Inl err \<Rightarrow> [] | Inr goFile \<Rightarrow> structsOf goFile)
      @ scannedStructs w rest"
  by (simp_all add: scannedStructs_def)

lemma processFiles_flat:
  "list_all (parses w) files
    \<Longrightarrow> processFiles L w files schema = processAll L w (scannedStructs w files) schema"
proof (induction files arbitrary: schema)
  case Nil
  then show ?case by (simp add: scannedStructs_simps)
next
  case (Cons path rest)
  then obtain goFile where p: "parseFile w path = Inr goFile"
    by (cases "parseFile w path") (auto simp: parses_def)
  from Cons have "processFiles L w rest s = processAll L w (scannedStructs w rest) s" for s
    by simp
  then show ?case
    by (simp add: p scannedStructs_simps processFileAST_flat processAll_append split: sum.splits)
qed

lemma processFiles_parsed:
  "processFiles L w files schema = Inr s \<Longrightarrow> list_all (parses w) files"
  by (induction files arbitrary: schema) (auto simp: parses_def split: sum.splits)

subsection \<open>Markers\<close>

lemma Contains_iff: "Contains s sub \<longleftrightarrow> (\<exists>ys zs. s = ys @ sub @ zs)"
proof (induction s)
  case Nil
  then show ?case by auto
next
  case (Cons c cs)
  show ?case
  proof
    assume "Contains (c # cs) sub"
    then consider "prefix sub (c # cs)" | "Contains cs sub" by auto
    then show "\<exists>ys zs. c # cs = ys @ sub @ zs"
    proof cases
      case 1
      then obtain zs where "c # cs = sub @ zs" by (auto simp: prefix_def)
      then have "c # cs = [] @ sub @ zs" by simp
      then show ?thesis by blast
    next
      case 2
      with Cons.IH obtain ys zs where "cs = ys @ sub @ zs" by blast
      then have "c # cs = (c # ys) @ sub @ zs" by simp
      then show ?thesis by blast
    qed
  next
    assume "\<exists>ys zs. c # cs = ys @ sub @ zs"
    then obtain ys zs where eq: "c # cs = ys @ sub @ zs" by blast
    show "Contains (c # cs) sub"
    proof (cases ys)
      case Nil
      with eq have "prefix sub (c # cs)" by (simp add: prefix_def)
      then show ?thesis by simp
    next
      case (Cons y ys')
      with eq have "cs = ys' @ sub @ zs" by simp
      with Cons.IH have "Contains cs sub" by blast
      then show ?thesis by simp
    qed
  qed
qed

lemma Contains_longer: "Contains s (m @ x) \<Longrightarrow> Contains s m"
  unfolding Contains_iff by (metis append.assoc)

text \<open>
  Claim C9. The description marker and the configuration marker start with
  the inclusion marker, and the inclusion test looks for the inclusion marker
  anywhere in a comment. So a doc comment with a description directive or a
  configuration directive, and no inclusion marker of its own, marks its
  declaration for inclusion, at the declaration group and at the type spec.
\<close>

theorem directive_marks:
  "prefix weaviateMarker weaviateDescMarker \<and> prefix weaviateMarker weaviateConfigMarker \<and>
   (c \<in> set cs \<and> (Contains c weaviateDescMarker \<or> Contains c weaviateConfigMarker)
   \<longrightarrow> hasWeaviateMarker (Some cs) \<and> includeInWeaviate (Some cs) specDoc
       \<and> includeInWeaviate genDoc (Some cs))"
proof (intro conjI impI)
  show "prefix weaviateMarker weaviateDescMarker"
    by (simp add: weaviateDescMarker_def weaviateMarker_def)
  show "prefix weaviateMarker weaviateConfigMarker"
    by (simp add: weaviateConfigMarker_def weaviateMarker_def)
next
  assume a: "c \<in> set cs \<and> (Contains c weaviateDescMarker \<or> Contains c weaviateConfigMarker)"
  have d: "weaviateDescMarker = weaviateMarker @ '':desc:''"
    and g: "weaviateConfigMarker = weaviateMarker @ '':config:''"
    by (simp_all add: weaviateDescMarker_def weaviateConfigMarker_def weaviateMarker_def)
  from a have "Contains c weaviateMarker"
    unfolding d g using Contains_longer by blast
  with a have "hasWeaviateMarker (Some cs)"
    by (auto simp: hasWeaviateMarker_def list_ex_iff)
  then show "hasWeaviateMarker (Some cs)"
    and "includeInWeaviate (Some cs) specDoc"
    and "includeInWeaviate genDoc (Some cs)"
    by (simp_all add: includeInWeaviate_def)
qed

theorem directive_marks_witness:
  "''// +weave:desc: A news article'' \<in> set [''// Article is a text'', ''// +weave:desc: A news article'']
   \<and> Contains ''// +weave:desc: A news article'' weaviateDescMarker
   \<and> hasWeaviateMarker (Some [''// Article is a text'', ''// +weave:desc: A news article''])
   \<and> includeInWeaviate (Some [''// Article is a text'', ''// +weave:desc: A news article'']) None
   \<and> includeInWeaviate None (Some [''// Article is a text'', ''// +weave:desc: A news article''])"
proof -
  have c: "Contains ''// +weave:desc: A news article'' weaviateDescMarker"
    by code_simp
  have m: "''// +weave:desc: A news article'' \<in> set [''// Article is a text'', ''// +weave:desc: A news article'']"
    by simp
  from directive_marks [of "''// +weave:desc: A news article''"
      "[''// Article is a text'', ''// +weave:desc: A news article'']" None None] c m
  show ?thesis by blast
qed

subsection \<open>The class builder\<close>

text \<open>
  Claim C10. For an exported field whose tag is well formed, does not exclude
  it and gives a value for the key \<^verbatim>\<open>type\<close>: the property is built, its data
  type is that value alone, whatever it is, and the outcome does not depend on
  the field's type, so the mapper has no part in it (also where the mapper would
  fail).
\<close>

theorem type_override:
  "IsExported L fieldName \<and> Unquote L lit = Some tagValue \<and>
   extractJSONFieldName L tagValue \<noteq> ''-'' \<and>
   extractWeaviateConfig L tagValue ''type'' = Some dt
   \<longrightarrow> (\<exists>p. processField L (Field (fieldName # others) ty (Some lit)) = Inr (Some p) \<and>
            DataType p = [dt]) \<and>
       processField L (Field (fieldName # others) ty' (Some lit)) =
       processField L (Field (fieldName # others) ty (Some lit))"
  by (simp add: processField_def buildProperty_def lookupConfig_def Let_def)

theorem type_override_witness:
  "IsExported asciiLib ''Callback'' \<and>
   Unquote asciiLib (rawLiteral (''json:'' @ quoted ''cb'' @ '' weave:'' @ quoted ''type=blob[],description=hi''))
     = Some (''json:'' @ quoted ''cb'' @ '' weave:'' @ quoted ''type=blob[],description=hi'') \<and>
   extractJSONFieldName asciiLib
     (''json:'' @ quoted ''cb'' @ '' weave:'' @ quoted ''type=blob[],description=hi'') = ''cb'' \<and>
   extractWeaviateConfig asciiLib
     (''json:'' @ quoted ''cb'' @ '' weave:'' @ quoted ''type=blob[],description=hi'') ''type''
     = Some ''blob[]'' \<and>
   determineWeaviateDataType asciiLib FuncType = Inl ''unsupported type: *ast.FuncType'' \<and>
   (\<exists>p. processField asciiLib (Field [''Callback''] FuncType
           (Some (rawLiteral (''json:'' @ quoted ''cb'' @ '' weave:'' @ quoted ''type=blob[],description=hi''))))
         = Inr (Some p) \<and> DataType p = [''blob[]''])"
proof -
  let ?tag = "''json:'' @ quoted ''cb'' @ '' weave:'' @ quoted ''type=blob[],description=hi''"
  have 1: "IsExported asciiLib ''Callback''"
    by code_simp
  have 2: "Unquote asciiLib (rawLiteral ?tag) = Some ?tag"
    by code_simp
  have 3: "extractJSONFieldName asciiLib ?tag = ''cb''"
    by code_simp
  have 4: "extractWeaviateConfig asciiLib ?tag ''type'' = Some ''blob[]''"
    by code_simp
  have 5: "determineWeaviateDataType asciiLib FuncType = Inl ''unsupported type: *ast.FuncType''"
    by simp
  have 6: "extractJSONFieldName asciiLib ?tag \<noteq> ''-''"
    unfolding 3 by simp
  from type_override [of asciiLib "''Callback''" "rawLiteral ?tag" ?tag "''blob[]''" "[]" FuncType] 1 2 4 6
  have "\<exists>p. processField asciiLib (Field [''Callback''] FuncType (Some (rawLiteral ?tag)))
         = Inr (Some p) \<and> DataType p = [''blob[]'']"
    by blast
  with 1 2 3 4 5 show ?thesis by (intro conjI)
qed

subsection \<open>Directories that cannot be read\<close>

lemma unreadable_directory:
  "\<not> hasMeta dir \<Longrightarrow> readDir w dir = Unreadable
    \<Longrightarrow> GenerateWeaviateSchema L w dir = Inr \<lparr>Classes = []\<rparr>"
  by (simp add: GenerateWeaviateSchema_def processGoFiles_def Glob_def)

text \<open>
  Claim C4 (the code departs from it). The claim asks for a scan error when
  the directory cannot be read. \<^verbatim>\<open>processGoFiles\<close> lists the directory with
  \<^verbatim>\<open>filepath.Glob\<close>, which ignores the errors of reading a directory, so the
  branch \<^verbatim>\<open>error reading directory\<close> is not taken: for a directory that does
  not exist the compilation succeeds with a schema without classes.
\<close>

theorem nonexistent_directory_empty_schema:
  "readDir emptyWorld ''/nonexistent'' = Unreadable \<and>
   GenerateWeaviateSchema asciiLib emptyWorld ''/nonexistent'' = Inr \<lparr>Classes = []\<rparr>"
  by code_simp

subsection \<open>Property names\<close>

lemma excluded_field:
  "Unquote L lit = Some tagValue \<Longrightarrow> extractJSONFieldName L tagValue = ''-''
    \<Longrightarrow> processField L (Field names ty (Some lit)) = Inr None"
  by (cases names) (simp_all add: processField_def)

lemma buildProperty_Name:
  "buildProperty L fieldName ty propName weaviateConfig = Inr p
    \<Longrightarrow> Name p = (if propName = [] then ToLower L (take 1 fieldName) @ drop 1 fieldName
                  else propName)"
  unfolding buildProperty_def Let_def by (auto split: sum.splits)

lemma property_name_untagged:
  "processField L (Field (fieldName # others) ty None) = Inr (Some p)
    \<Longrightarrow> Name p = ToLower L (take 1 fieldName) @ drop 1 fieldName"
  by (cases "buildProperty L fieldName ty [] None")
     (auto simp: processField_def dest: buildProperty_Name split: if_splits)

lemma property_name_tagged:
  "Unquote L lit = Some tagValue
    \<Longrightarrow> processField L (Field (fieldName # others) ty (Some lit)) = Inr (Some p)
    \<Longrightarrow> Name p = (if extractJSONFieldName L tagValue = []
                  then ToLower L (take 1 fieldName) @ drop 1 fieldName
                  else extractJSONFieldName L tagValue)"
  by (cases "buildProperty L fieldName ty (extractJSONFieldName L tagValue)
               (Some (extractWeaviateConfig L tagValue))")
     (auto simp: processField_def Let_def dest: buildProperty_Name split: if_splits)

lemma lower_first_ascii:
  "byte c < 0x80 \<Longrightarrow> ToLower L (take 1 (c # cs)) @ drop 1 (c # cs) = lowerASCII c # cs"
  by (simp add: ToLower_def)

lemma lower_first_other:
  "0x80 \<le> byte c \<Longrightarrow> ToLower L (take 1 (c # cs)) @ drop 1 (c # cs)
     = [CHR 0xEF, CHR 0xBF, CHR 0xBD] @ cs"
  by (simp add: ToLower_def)

text \<open>
  Claim C5 (the code departs from it). A field excluded by the name \<^verbatim>\<open>-\<close> is
  skipped and a name from the tag is taken as it is (the lemmas above). Without
  a name from the tag the claim asks for the field name with its first
  character in lower case. \<^verbatim>\<open>processStruct\<close> lower-cases the first byte, not
  the first character: for the exported field \<^verbatim>\<open>Uber\<close> with U umlaut the name
  becomes the bytes EF BF BD (U+FFFD) followed by the rest of the name from its
  second byte on, not the name with u umlaut in front.
\<close>

theorem field_name_not_lowered:
  "IsExported asciiLib Uber \<and>
   processStruct asciiLib ''geo'' ''City''
     [Field [''Name''] (Ident ''string'') None, Field [Uber] (Ident ''string'') None]
   = Inr \<lparr>Package = ''geo'', Class = ''City'', ClassDescription = [],
          VectorIndexType = ''hnsw'', VectorIndexConfig = None,
          Properties =
            [\<lparr>Name = ''name'', DataType = [''text''], Description = [], Tokenization = [],
              IndexFilterable = False, IndexSearchable = False, IndexInverted = False\<rparr>,
             \<lparr>Name = [CHR 0xEF, CHR 0xBF, CHR 0xBD, CHR 0x9C] @ ''ber'', DataType = [''text''],
              Description = [], Tokenization = [],
              IndexFilterable = False, IndexSearchable = False, IndexInverted = False\<rparr>],
          Vectorizer = ''text2vec-contextionary'',
          ModuleConfig = None, ShardingConfig = None, ReplicationConfig = None,
          InvertedIndexConfig = None\<rparr>"
  by code_simp

subsection \<open>Inclusion\<close>

lemma applyEntry_keeps:
  "Package (applyEntry e c) = Package c"
  "Class (applyEntry e c) = Class c"
  "Properties (applyEntry e c) = Properties c"
  by (cases e; simp split: ConfigValue.splits)+

lemma fold_applyEntry_keeps:
  "Package (fold applyEntry es c) = Package c \<and> Class (fold applyEntry es c) = Class c
    \<and> Properties (fold applyEntry es c) = Properties c"
  by (induction es arbitrary: c) (simp_all add: applyEntry_keeps)

lemma processStruct_result:
  "processStruct L packageName structName flds = Inr class
    \<Longrightarrow> Package class = packageName \<and> Class class = structName"
  by (auto simp: processStruct_def split: sum.splits)

lemma processStructDecl_cases:
  "processStructDecl L w d schema =
    (if \<not> included d then Inr schema
     else (case processStruct L (declPackage d) (declName d) (declFields d) of
             Inl err \<Rightarrow> Inl (''error processing struct '' @ declName d @ '': '' @ err)
           | Inr class \<Rightarrow>
               Inr (schema\<lparr>Classes := Classes schema @
                 [applyClassConfig w
                    (if (if extractWeaviateDescription L (groupDoc d) = []
                         then extractWeaviateDescription L (typeDoc d)
                         else extractWeaviateDescription L (groupDoc d)) \<noteq> []
                     then class\<lparr>ClassDescription :=
                            (if extractWeaviateDescription L (groupDoc d) = []
                             then extractWeaviateDescription L (typeDoc d)
                             else extractWeaviateDescription L (groupDoc d))\<rparr>
                     else class)
                    (if length (extractWeaviateClassConfig L (groupDoc d)) = 0
                     then extractWeaviateClassConfig L (typeDoc d)
                     else extractWeaviateClassConfig L (groupDoc d))]\<rparr>)))"
  by (simp add: processStructDecl_def processSpec_def included_def Let_def)

lemma processStructDecl_keys:
  "processStructDecl L w d schema = Inr s
    \<Longrightarrow> map classKey (Classes s) =
        map classKey (Classes schema) @ (if included d then [declKey d] else [])"
  unfolding processStructDecl_cases
  by (auto simp: classKey_def declKey_def applyClassConfig_def fold_applyEntry_keeps
      dest: processStruct_result split: if_splits sum.splits)

lemma processAll_keys:
  "processAll L w ds schema = Inr s
    \<Longrightarrow> map classKey (Classes s) = map classKey (Classes schema) @ map declKey (filter included ds)"
proof (induction ds arbitrary: schema)
  case Nil
  then show ?case by simp
next
  case (Cons d rest)
  from Cons.prems obtain s1 where 1: "processStructDecl L w d schema = Inr s1"
    and 2: "processAll L w rest s1 = Inr s"
    by (auto split: sum.splits)
  from processStructDecl_keys [OF 1] Cons.IH [OF 2] show ?case by simp
qed

lemma Generate_flat:
  assumes "GenerateWeaviateSchema L w dir = Inr schema"
  shows "allParse L w dir \<and> processAll L w (scannedIn L w dir) \<lparr>Classes = []\<rparr> = Inr schema"
proof -
  from assms obtain files where g: "Glob L w dir = Inr files"
    and p: "processFiles L w files \<lparr>Classes = []\<rparr> = Inr schema"
    by (auto simp: GenerateWeaviateSchema_def processGoFiles_def split: sum.splits)
  from p have a: "list_all (parses w) files"
    by (rule processFiles_parsed)
  with p have "processAll L w (scannedStructs w files) \<lparr>Classes = []\<rparr> = Inr schema"
    by (simp add: processFiles_flat)
  with a g show ?thesis
    by (simp add: allParse_def scannedIn_def)
qed

text \<open>
  Claim C6. When the compilation of a directory returns a schema, its classes
  are, in scan order, the struct declarations for which the marker was found,
  one class per such declaration with its package and name; a declaration with
  the marker in the doc comment of its group and not in its own doc comment is
  among them, and one with the marker at neither place is not and adds no
  class.
\<close>

theorem inclusion_by_marker:
  "(GenerateWeaviateSchema L w dir = Inr schema
     \<longrightarrow> map classKey (Classes schema) = map declKey (filter included (scannedIn L w dir))) \<and>
   (hasWeaviateMarker (groupDoc d) \<and> \<not> hasWeaviateMarker (typeDoc d) \<longrightarrow> included d) \<and>
   (\<not> hasWeaviateMarker (groupDoc d) \<and> \<not> hasWeaviateMarker (typeDoc d) \<longrightarrow> \<not> included d)"
proof (intro conjI impI)
  assume "GenerateWeaviateSchema L w dir = Inr schema"
  then have "processAll L w (scannedIn L w dir) \<lparr>Classes = []\<rparr> = Inr schema"
    by (simp add: Generate_flat)
  from processAll_keys [OF this]
  show "map classKey (Classes schema) = map declKey (filter included (scannedIn L w dir))"
    by simp
qed (simp_all add: included_def includeInWeaviate_def)

lemma article_schema:
  "GenerateWeaviateSchema asciiLib exampleWorld ''models'' = Inr \<lparr>Classes = [articleClass]\<rparr>"
  by code_simp

lemma article_scan: "scannedIn asciiLib exampleWorld ''models'' = [articleDecl, draftDecl]"
  by code_simp

theorem inclusion_by_marker_witness:
  "GenerateWeaviateSchema asciiLib exampleWorld ''models'' = Inr \<lparr>Classes = [articleClass]\<rparr> \<and>
   scannedIn asciiLib exampleWorld ''models'' = [articleDecl, draftDecl] \<and>
   hasWeaviateMarker (groupDoc articleDecl) \<and> \<not> hasWeaviateMarker (typeDoc articleDecl) \<and>
   included articleDecl \<and>
   \<not> hasWeaviateMarker (groupDoc draftDecl) \<and> \<not> hasWeaviateMarker (typeDoc draftDecl) \<and>
   \<not> included draftDecl \<and>
   map classKey [articleClass] = map declKey (filter included [articleDecl, draftDecl])"
proof -
  have m: "hasWeaviateMarker (groupDoc articleDecl)" "\<not> hasWeaviateMarker (typeDoc articleDecl)"
    "\<not> hasWeaviateMarker (groupDoc draftDecl)" "\<not> hasWeaviateMarker (typeDoc draftDecl)"
    by code_simp+
  note a = inclusion_by_marker [of asciiLib exampleWorld "''models''" "\<lparr>Classes = [articleClass]\<rparr>"
      articleDecl]
  note b = inclusion_by_marker [of asciiLib exampleWorld "''models''" "\<lparr>Classes = [articleClass]\<rparr>"
      draftDecl]
  from a m have i: "included articleDecl" by blast
  from b m have n: "\<not> included draftDecl" by blast
  from a article_schema
  have "map classKey (Classes \<lparr>Classes = [articleClass]\<rparr>)
      = map declKey (filter included (scannedIn asciiLib exampleWorld ''models''))"
    by blast
  then have k: "map classKey [articleClass] = map declKey (filter included [articleDecl, draftDecl])"
    unfolding article_scan by simp
  from article_schema article_scan m i n k show ?thesis by (intro conjI)
qed

subsection \<open>Unsupported field types\<close>


lemma mapper_supported:
  "\<not> unsupported X \<Longrightarrow> \<exists>ts. determineWeaviateDataType L X = Inr ts"
proof (induction L X rule: determineWeaviateDataType.induct)
  case (2 L len elt)
  then have "\<not> unsupported elt" by (simp add: unsupported_def)
  with 2 obtain ts where "determineWeaviateDataType L elt = Inr ts" by blast
  then show ?case by simp
next
  case (4 L x sel)
  then show ?case by (cases x) simp_all
qed (simp_all add: unsupported_def)










subsection \<open>Determinism\<close>

lemma append_mono_lex: "(xs :: string) \<le> ys \<Longrightarrow> p @ xs \<le> p @ ys"
  by (auto simp: list_le_def list_less_def intro: lexord_append_leftI)

lemma sorted_prefixed: "sorted (names :: string list) \<Longrightarrow> sorted (map (\<lambda>n. p @ n) names)"
  by (induction names) (auto simp: append_mono_lex)

lemma Glob_sorted: "\<not> hasMeta dir \<Longrightarrow> Glob L w dir = Inr files \<Longrightarrow> sorted files"
  by (auto simp: Glob_def sorted_prefixed sorted_wrt_filter split: Directory.splits)

lemma sort_permuted: "mset names' = mset names \<Longrightarrow> sort names' = sort (names :: string list)"
  by (rule properties_for_sort) simp_all

lemma Glob_same:
  assumes "sameDirectory w w' dir"
  shows "Glob L w' dir = Glob L w dir"
proof (cases "hasMeta dir")
  case True
  with assms show ?thesis by (simp add: sameDirectory_def Glob_def)
next
  case False
  show ?thesis
  proof (cases "readDir w dir")
    case Unreadable
    with assms have "readDir w' dir = Unreadable"
      by (simp add: sameDirectory_def)
    with Unreadable False show ?thesis by (simp add: Glob_def)
  next
    case (Entries names)
    with assms obtain names' where r: "readDir w' dir = Entries names'"
      and m: "mset names' = mset names"
      by (cases "readDir w' dir") (simp_all add: sameDirectory_def)
    from m have "sort names' = sort names" by (rule sort_permuted)
    with Entries r False show ?thesis by (simp add: Glob_def)
  qed
qed

lemma applyEntry_fields:
  "Package (applyEntry (k, v) c) = Package c"
  "Class (applyEntry (k, v) c) = Class c"
  "ClassDescription (applyEntry (k, v) c) = ClassDescription c"
  "Properties (applyEntry (k, v) c) = Properties c"
  "VectorIndexType (applyEntry (k, v) c) =
    (case v of StringValue s \<Rightarrow> if k = ''vectorIndexType'' then s else VectorIndexType c
     | _ \<Rightarrow> VectorIndexType c)"
  "Vectorizer (applyEntry (k, v) c) =
    (case v of StringValue s \<Rightarrow> if k = ''vectorizer'' then s else Vectorizer c
     | _ \<Rightarrow> Vectorizer c)"
  "VectorIndexConfig (applyEntry (k, v) c) =
    (case v of ObjectValue m \<Rightarrow> if k = ''vectorIndexConfig'' then Some m else VectorIndexConfig c
     | _ \<Rightarrow> VectorIndexConfig c)"
  "ModuleConfig (applyEntry (k, v) c) =
    (case v of ObjectValue m \<Rightarrow> if k = ''moduleConfig'' then Some m else ModuleConfig c
     | _ \<Rightarrow> ModuleConfig c)"
  "ShardingConfig (applyEntry (k, v) c) =
    (case v of ObjectValue m \<Rightarrow> if k = ''shardingConfig'' then Some m else ShardingConfig c
     | _ \<Rightarrow> ShardingConfig c)"
  "ReplicationConfig (applyEntry (k, v) c) =
    (case v of ObjectValue m \<Rightarrow> if k = ''replicationConfig'' then Some m else ReplicationConfig c
     | _ \<Rightarrow> ReplicationConfig c)"
  "InvertedIndexConfig (applyEntry (k, v) c) =
    (case v of ObjectValue m \<Rightarrow> if k = ''invertedIndexConfig'' then Some m else InvertedIndexConfig c
     | _ \<Rightarrow> InvertedIndexConfig c)"
  "WeaviateClass.more (applyEntry (k, v) c) = WeaviateClass.more c"
  by (cases v; simp)+

lemma applyEntry_commute:
  "k1 \<noteq> k2 \<Longrightarrow> applyEntry (k1, v1) (applyEntry (k2, v2) c) = applyEntry (k2, v2) (applyEntry (k1, v1) c)"
  by (rule WeaviateClass.equality; cases v1; cases v2; simp only: applyEntry_fields ConfigValue.case; auto)

lemma fold_applyEntry_permuted:
  assumes "distinct (map fst es)" and "mset es' = mset es"
  shows "fold applyEntry es' c = fold applyEntry es c"
proof -
  have "applyEntry x \<circ> applyEntry y = applyEntry y \<circ> applyEntry x"
    if "x \<in> set es" and "y \<in> set es" for x y
  proof (cases "fst x = fst y")
    case True
    with that assms(1) have "x = y"
      by (metis eq_key_imp_eq_value prod.collapse)
    then show ?thesis by simp
  next
    case False
    then show ?thesis
      using applyEntry_commute [of "fst x" "fst y" "snd x" "snd y"] by (auto simp: fun_eq_iff)
  qed
  from fold_multiset_equiv [of es applyEntry es', OF this] assms(2)
  show ?thesis by simp
qed

lemma applyClassConfig_canonical:
  "permutes w \<Longrightarrow> distinct (map fst config)
    \<Longrightarrow> applyClassConfig w c config = fold applyEntry config c"
  unfolding applyClassConfig_def permutes_def
  by (rule fold_applyEntry_permuted) simp_all

lemma configParts_distinct:
  "distinct (map fst config) \<Longrightarrow> distinct (map fst (configParts L parts config))"
  by (induction L parts config rule: configParts.induct)
     (auto simp: distinct_update split: list.splits)

lemma configIn_distinct:
  "distinct (map fst config) \<Longrightarrow> distinct (map fst (configIn L cs config))"
  by (induction L cs config rule: configIn.induct)
     (auto simp: configParts_distinct split: list.splits)

lemma config_distinct: "distinct (map fst (extractWeaviateClassConfig L cg))"
  by (simp add: extractWeaviateClassConfig_def configIn_distinct split: option.splits)

lemma processSpec_same:
  assumes "permutes w" and "permutes w'"
  shows "processSpec L w' packageName genDoc spec schema
    = processSpec L w packageName genDoc spec schema"
proof -
  have c: "applyClassConfig w' c (extractWeaviateClassConfig L cg)
      = applyClassConfig w c (extractWeaviateClassConfig L cg)" for c cg
    using assms by (simp add: applyClassConfig_canonical config_distinct)
  show ?thesis
  proof (cases spec)
    case (TypeSpec specDoc name ty)
    then show ?thesis
      by (cases ty) (simp_all add: processSpec_def Let_def c split: sum.splits)
  qed (simp_all add: processSpec_def)
qed

lemma processSpecs_same:
  assumes "permutes w" and "permutes w'"
  shows "processSpecs L w' packageName genDoc specs schema
      = processSpecs L w packageName genDoc specs schema"
  by (induction specs arbitrary: schema)
     (simp_all add: processSpec_same [OF assms] split: sum.splits)

lemma processDecls_same:
  assumes "permutes w" and "permutes w'"
  shows "processDecls L w' packageName decls schema = processDecls L w packageName decls schema"
  by (induction decls arbitrary: schema)
     (simp_all add: processSpecs_same [OF assms] split: Decl.splits Token.splits sum.splits)

lemma processFiles_same:
  assumes "permutes w" and "permutes w'" and "parseFile w' = parseFile w"
  shows "processFiles L w' files schema = processFiles L w files schema"
  by (induction files arbitrary: schema)
     (simp_all add: processFileAST_def processDecls_same [OF assms(1,2)] assms(3)
        split: sum.splits)

text \<open>
  Claim C8. Two runs of the compilation on the same directory return the same
  result, schema or error, whatever the order in which the directory is listed
  and in which \<^verbatim>\<open>applyClassConfig\<close> ranges over the configuration map; and for
  a directory path (no pattern characters) the files are processed in the
  lexicographic order of their paths.
\<close>

theorem deterministic_compilation:
  "permutes w \<and> permutes w' \<and> sameDirectory w w' dir
   \<longrightarrow> GenerateWeaviateSchema L w' dir = GenerateWeaviateSchema L w dir \<and>
       (\<not> hasMeta dir
        \<longrightarrow> (\<exists>files. Glob L w dir = Inr files \<and> sorted files \<and>
               GenerateWeaviateSchema L w dir = processFiles L w files \<lparr>Classes = []\<rparr>))"
proof (intro impI conjI)
  assume a: "permutes w \<and> permutes w' \<and> sameDirectory w w' dir"
  then have g: "Glob L w' dir = Glob L w dir"
    by (simp add: Glob_same)
  from a have p: "parseFile w' = parseFile w"
    by (simp add: sameDirectory_def)
  from a p have "processFiles L w' files schema = processFiles L w files schema" for files schema
    by (intro processFiles_same) simp_all
  then show "GenerateWeaviateSchema L w' dir = GenerateWeaviateSchema L w dir"
    unfolding GenerateWeaviateSchema_def processGoFiles_def g
    by (cases "Glob L w dir") simp_all
  assume m: "\<not> hasMeta dir"
  then obtain files where f: "Glob L w dir = Inr files"
    by (cases "readDir w dir") (simp_all add: Glob_def)
  with m have "sorted files"
    by (simp add: Glob_sorted)
  with f show "\<exists>files. Glob L w dir = Inr files \<and> sorted files \<and>
               GenerateWeaviateSchema L w dir = processFiles L w files \<lparr>Classes = []\<rparr>"
    by (simp add: GenerateWeaviateSchema_def processGoFiles_def)
qed

theorem deterministic_compilation_witness:
  "permutes libraryWorld \<and> permutes libraryWorld' \<and>
   sameDirectory libraryWorld libraryWorld' ''library'' \<and>
   readDir libraryWorld ''library'' = Entries [''book.go'', ''author.go'', ''README.md''] \<and>
   readDir libraryWorld' ''library'' = Entries [''README.md'', ''author.go'', ''book.go''] \<and>
   Glob asciiLib libraryWorld ''library'' = Inr [''library/author.go'', ''library/book.go''] \<and>
   GenerateWeaviateSchema asciiLib libraryWorld ''library'' = Inr librarySchema \<and>
   GenerateWeaviateSchema asciiLib libraryWorld' ''library'' = Inr librarySchema"
proof -
  have 1: "permutes libraryWorld"
    by (simp add: permutes_def libraryWorld_def)
  have 2: "permutes libraryWorld'"
    by (simp add: permutes_def libraryWorld'_def)
  have r: "readDir libraryWorld ''library'' = Entries [''book.go'', ''author.go'', ''README.md'']"
    "readDir libraryWorld' ''library'' = Entries [''README.md'', ''author.go'', ''book.go'']"
    by (simp_all add: libraryWorld_def libraryWorld'_def)
  have 3: "sameDirectory libraryWorld libraryWorld' ''library''"
    unfolding sameDirectory_def r by (simp add: libraryWorld'_def)
  have g: "Glob asciiLib libraryWorld ''library'' = Inr [''library/author.go'', ''library/book.go'']"
    by code_simp
  have s: "GenerateWeaviateSchema asciiLib libraryWorld ''library'' = Inr librarySchema"
    by code_simp
  from deterministic_compilation [of libraryWorld libraryWorld' "''library''" asciiLib] 1 2 3
  have "GenerateWeaviateSchema asciiLib libraryWorld' ''library''
      = GenerateWeaviateSchema asciiLib libraryWorld ''library''"
    by blast
  with s have "GenerateWeaviateSchema asciiLib libraryWorld' ''library'' = Inr librarySchema"
    by simp
  with 1 2 3 r g s show ?thesis by (intro conjI)
qed

end
